theory Spec2Isabelle
  imports Main
begin

section \<open>JavaScript values\<close>

text \<open>
  The webhook body is parsed JSON and the handlers read it with JavaScript's own
  operators (truthiness, \<open>??\<close>, \<open>===\<close>, \<open>String(...)\<close>), so the model keeps a type of
  JavaScript values. Numbers are the integer-valued ones (identifiers, amounts in the
  smallest currency unit, epoch milliseconds).
\<close>

datatype jsval =
    JUndefined
  | JNull
  | JBool bool
  | JNum int
  | JStr string
  | JArr "jsval list"
  | JObj "(string \<times> jsval) list"

text \<open>\<open>if (v)\<close> and \<open>!v\<close>.\<close>

fun truthy :: "jsval \<Rightarrow> bool" where
  "truthy JUndefined = False"
| "truthy JNull = False"
| "truthy (JBool b) = b"
| "truthy (JNum n) = (n \<noteq> 0)"
| "truthy (JStr s) = (s \<noteq> [])"
| "truthy (JArr xs) = True"
| "truthy (JObj fs) = True"

text \<open>\<open>a ?? b\<close>: the right operand only when the left one is \<open>undefined\<close> or \<open>null\<close>.\<close>

fun nullish :: "jsval \<Rightarrow> bool" where
  "nullish JUndefined = True"
| "nullish JNull = True"
| "nullish v = False"

definition coalesce :: "jsval \<Rightarrow> jsval \<Rightarrow> jsval" where
  "coalesce a b = (if nullish a then b else a)"

text \<open>
  Property read \<open>v.k\<close> (and \<open>v?.k\<close>): an own property of an object, \<open>undefined\<close> when
  the object has none; the names read by the handlers are no properties of a primitive
  or of an array.
\<close>

fun getp :: "jsval \<Rightarrow> string \<Rightarrow> jsval" where
  "getp (JObj fs) k = (case map_of fs k of Some v \<Rightarrow> v | None \<Rightarrow> JUndefined)"
| "getp v k = JUndefined"

text \<open>
  \<open>a === b\<close>, which is also the key comparison of a \<open>Map\<close>. Primitives compare by
  value. Objects and arrays compare by reference: one read from a freshly parsed body
  is never the one held by a plan or by an earlier record.
\<close>

fun strict_eq :: "jsval \<Rightarrow> jsval \<Rightarrow> bool" where
  "strict_eq (JObj fs) b = False"
| "strict_eq (JArr xs) b = False"
| "strict_eq a (JObj gs) = False"
| "strict_eq a (JArr ys) = False"
| "strict_eq a b = (a = b)"

text \<open>
  \<open>String(v)\<close>; an array joins its elements with commas, \<open>null\<close> and
  \<open>undefined\<close> as the empty string. A number is written with all its decimal
  digits, which is what JavaScript prints for an integer of magnitude below
  \<open>1e21\<close>; from there on JavaScript switches to exponent notation, and the
  text computed here differs. The identifiers, amounts and timestamps of a payload lie
  far below that bound.
\<close>

fun digits :: "nat \<Rightarrow> string" where
  "digits n = (if n < 10 then [''0123456789'' ! n] else digits (n div 10) @ [''0123456789'' ! (n mod 10)])"

definition show_int :: "int \<Rightarrow> string" where
  "show_int i = (if i < 0 then CHR ''-'' # digits (nat (- i)) else digits (nat i))"

fun join_comma :: "string list \<Rightarrow> string" where
  "join_comma [] = []"
| "join_comma [x] = x"
| "join_comma (x # y # ys) = x @ CHR '','' # join_comma (y # ys)"

fun to_string :: "jsval \<Rightarrow> string" where
  "to_string JUndefined = ''undefined''"
| "to_string JNull = ''null''"
| "to_string (JBool b) = (if b then ''true'' else ''false'')"
| "to_string (JNum n) = show_int n"
| "to_string (JStr s) = s"
| "to_string (JArr xs) = join_comma (map (\<lambda>x. if x = JUndefined \<or> x = JNull then [] else to_string x) xs)"
| "to_string (JObj fs) = ''[object Object]''"

text \<open>\<open>s.toLowerCase()\<close> on the ASCII letters.\<close>

definition lower_char :: "char \<Rightarrow> char" where
  "lower_char c =
     (case map_of (zip ''ABCDEFGHIJKLMNOPQRSTUVWXYZ'' ''abcdefghijklmnopqrstuvwxyz'') c of
        Some d \<Rightarrow> d
      | None \<Rightarrow> c)"

definition toLowerCase :: "string \<Rightarrow> string" where
  "toLowerCase s = map lower_char s"

section \<open>Errors\<close>

datatype error =
    Error string
  | TypeError string
  | RangeError string
  | SyntaxError
  | TributeSignatureError
  | TributeConfigurationError string
  | TributePlanNotFoundError string
  | TributeIntentNotFoundError jsval string
  | TributeSubscriptionNotFoundError jsval
  | TributeDonationNotFoundError jsval

fun is_configuration_error :: "error \<Rightarrow> bool" where
  "is_configuration_error (TributeConfigurationError msg) = True"
| "is_configuration_error e = False"


section \<open>The host environment\<close>

text \<open>
  What the code takes from the JavaScript runtime and not from this repository: the
  keyed SHA-256 digest already encoded (\<open>createHmac('sha256', key).update(body).digest(enc)\<close>),
  the decoding \<open>Buffer.from(text, enc)\<close>, \<open>JSON.parse\<close> and the timestamp parser
  behind \<open>new Date(text)\<close> (\<open>None\<close> is the invalid date).
\<close>

datatype encoding = Hex | Base64

record runtime =
  hmac_digest :: "string \<Rightarrow> string \<Rightarrow> encoding \<Rightarrow> string"
  buffer_from :: "string \<Rightarrow> encoding \<Rightarrow> string"
  json_parse :: "string \<Rightarrow> jsval option"
  date_parse :: "string \<Rightarrow> int option"

section \<open>SignatureVerifier\<close>

text \<open>The kinds of value a caller may hand over as the raw body.\<close>

datatype raw_body =
    RawBuffer string
  | RawUint8Array string
  | RawString string
  | RawArrayBuffer string
  | RawView string
  | RawOther

fun normalizeBody :: "raw_body \<Rightarrow> error + string" where
  "normalizeBody (RawBuffer b) = Inr b"
| "normalizeBody (RawUint8Array b) = Inr b"
| "normalizeBody (RawString s) = Inr s"
| "normalizeBody (RawArrayBuffer b) = Inr b"
| "normalizeBody (RawView b) = Inr b"
| "normalizeBody RawOther =
     Inl (TypeError ''Expected rawBody to be a Buffer, Uint8Array, ArrayBuffer or string'')"

definition computeDigest :: "runtime \<Rightarrow> string \<Rightarrow> string \<Rightarrow> encoding \<Rightarrow> string" where
  "computeDigest rt body apiKey enc = hmac_digest rt apiKey body enc"

text \<open>\<open>crypto.timingSafeEqual\<close> raises on buffers of different byte length.\<close>

definition timingSafeEqual :: "string \<Rightarrow> string \<Rightarrow> error + bool" where
  "timingSafeEqual a b =
     (if length a \<noteq> length b then Inl (RangeError ''Input buffers must have the same byte length'')
      else Inr (a = b))"

text \<open>\<open>!s\<close> on a value that is a string, \<open>undefined\<close> or \<open>null\<close>.\<close>

fun absent :: "string option \<Rightarrow> bool" where
  "absent None = True"
| "absent (Some s) = (s = [])"

text \<open>
  \<open>verifyTributeSignature\<close>, the version with \<open>normalizeBody\<close>. The \<open>try\<close> block
  turns whatever is raised inside it into \<open>false\<close>.
\<close>

definition verifyTributeSignature ::
  "runtime \<Rightarrow> raw_body \<Rightarrow> string option \<Rightarrow> string option \<Rightarrow> encoding \<Rightarrow> error + bool" where
  "verifyTributeSignature rt rawBody signatureHeader apiKey enc =
     (if absent apiKey then Inl (Error ''Tribute API key is required for signature verification'')
      else if absent signatureHeader then Inr False
      else case normalizeBody rawBody of
        Inl e \<Rightarrow> Inl e
      | Inr normalized \<Rightarrow>
          (let digest = computeDigest rt normalized (the apiKey) enc;
               expected = buffer_from rt digest enc;
               provided = buffer_from rt (the signatureHeader) enc
           in if length expected \<noteq> length provided then Inr False
              else case timingSafeEqual expected provided of
                Inl e \<Rightarrow> Inr False
              | Inr b \<Rightarrow> Inr b))"

text \<open>
  The other \<open>verifyTributeSignature\<close> of the same file, which accepts a \<open>Buffer\<close>
  only and leaves the length check to \<open>timingSafeEqual\<close>.
\<close>

definition verifyTributeSignature_buffer ::
  "runtime \<Rightarrow> raw_body \<Rightarrow> string option \<Rightarrow> string option \<Rightarrow> encoding \<Rightarrow> error + bool" where
  "verifyTributeSignature_buffer rt rawBody signatureHeader apiKey enc =
     (if absent apiKey then Inl (Error ''Tribute API key is required for signature verification'')
      else if absent signatureHeader then Inr False
      else case rawBody of
        RawBuffer b \<Rightarrow>
          (let digest = hmac_digest rt (the apiKey) b enc
           in case timingSafeEqual (buffer_from rt digest enc) (buffer_from rt (the signatureHeader) enc) of
                Inl e \<Rightarrow> Inr False
              | Inr r \<Rightarrow> Inr r)
      | _ \<Rightarrow> Inl (TypeError ''Expected rawBody to be a Buffer produced by express.raw or equivalent''))"

section \<open>Plans and plan resolution\<close>

text \<open>
  A \<open>TributePlan\<close>. The fields that \<open>#findPlanForPayload\<close> tests against
  \<open>undefined\<close> are JavaScript values; the currency is a string when it is set, since
  the code calls \<open>toLowerCase\<close> on it.
\<close>

record plan =
  plan_id :: string
  plan_title :: string
  plan_amount :: jsval
  plan_currency :: "string option"
  plan_period :: jsval
  plan_subscriptionLink :: string
  plan_tributeSubscriptionId :: jsval
  plan_tributePeriodId :: jsval
  plan_price :: jsval
  plan_metadata :: jsval

text \<open>The callback of \<open>this.plans.find\<close>, one early \<open>return false\<close> per test.\<close>

definition plan_matches :: "plan \<Rightarrow> jsval \<Rightarrow> bool" where
  "plan_matches pl payload =
     (if plan_tributeSubscriptionId pl \<noteq> JUndefined
         \<and> \<not> strict_eq (plan_tributeSubscriptionId pl) (getp payload ''subscription_id'') then False
      else if plan_tributePeriodId pl \<noteq> JUndefined
         \<and> \<not> strict_eq (plan_tributePeriodId pl) (getp payload ''period_id'') then False
      else if plan_price pl \<noteq> JUndefined
         \<and> \<not> strict_eq (plan_price pl) (getp payload ''price'') then False
      else if plan_currency pl \<noteq> None
         \<and> toLowerCase (the (plan_currency pl))
             \<noteq> toLowerCase (to_string (coalesce (getp payload ''currency'') (JStr ''''))) then False
      else if truthy (plan_period pl) \<and> truthy (getp payload ''period'')
         \<and> to_string (plan_period pl) \<noteq> to_string (getp payload ''period'') then False
      else if plan_amount pl \<noteq> JUndefined
         \<and> \<not> strict_eq (plan_amount pl) (getp payload ''amount'')
         \<and> \<not> strict_eq (plan_amount pl) (getp payload ''price'') then False
      else True)"

definition findPlanForPayload :: "plan list \<Rightarrow> jsval \<Rightarrow> plan option" where
  "findPlanForPayload plans payload = find (\<lambda>pl. plan_matches pl payload) plans"

text \<open>
  The identifying field put into the \<open>TributePlanNotFoundError\<close>:
  \<open>String(payload.subscription_id ?? payload.period_id ?? payload.price)\<close>.
\<close>

definition plan_not_found :: "jsval \<Rightarrow> error" where
  "plan_not_found payload =
     TributePlanNotFoundError
       (to_string (coalesce (coalesce (getp payload ''subscription_id'') (getp payload ''period_id''))
                     (getp payload ''price'')))"

section \<open>Stored entities\<close>

text \<open>
  A \<open>Date\<close> is its epoch time in milliseconds; a field that holds a \<open>Date\<close> or
  \<open>null\<close> is an option.
\<close>

record intent =
  intent_id :: string
  intent_planId :: string
  intent_telegramUserId :: jsval
  intent_createdAt :: int
  intent_expiresAt :: int
  intent_metadata :: jsval

record subscription =
  sub_planId :: string
  sub_tributeSubscriptionId :: jsval
  sub_tributePeriodId :: jsval
  sub_telegramUserId :: jsval
  sub_userId :: jsval
  sub_amount :: jsval
  sub_currency :: jsval
  sub_period :: jsval
  sub_status :: string
  sub_createdAt :: int
  sub_lastEventAt :: int
  sub_expiresAt :: "int option"
  sub_cancelledAt :: "int option"
  sub_cancelReason :: jsval
  sub_metadata :: jsval

record donation =
  don_donationRequestId :: jsval
  don_donationName :: jsval
  don_telegramUserId :: jsval
  don_userId :: jsval
  don_period :: jsval
  don_amount :: jsval
  don_currency :: jsval
  don_anonymously :: jsval
  don_message :: jsval
  don_webAppLink :: jsval
  don_status :: string
  don_createdAt :: int
  don_lastEventAt :: int
  don_cancelledAt :: "int option"
  don_metadata :: jsval

record payment =
  pay_kind :: string
  pay_tributeSubscriptionId :: jsval
  pay_planId :: jsval
  pay_donationRequestId :: jsval
  pay_telegramUserId :: jsval
  pay_userId :: jsval
  pay_amount :: jsval
  pay_currency :: jsval
  pay_paidAt :: int
  pay_payload :: jsval

record cancellation =
  can_cancelledAt :: int
  can_cancelReason :: jsval
  can_payload :: jsval

section \<open>Event results\<close>

record event_context =
  ctx_event :: jsval
  ctx_intent :: "intent option"
  ctx_intentStatus :: "string option"
  ctx_previousSubscription :: "subscription option"
  ctx_cancellation :: "cancellation option"
  ctx_cancellation_source :: "string option"

datatype event_result =
    SubscriptionEvent string subscription event_context
  | DonationEvent string donation event_context

fun res_category :: "event_result \<Rightarrow> string" where
  "res_category (SubscriptionEvent t sub c) = ''subscription''"
| "res_category (DonationEvent t don c) = ''donation''"

fun res_type :: "event_result \<Rightarrow> string" where
  "res_type (SubscriptionEvent t sub c) = t"
| "res_type (DonationEvent t don c) = t"

fun res_context :: "event_result \<Rightarrow> event_context" where
  "res_context (SubscriptionEvent t sub c) = c"
| "res_context (DonationEvent t don c) = c"

section \<open>The in-memory store and the listeners\<close>

text \<open>
  The state a call works on: the four collections of \<open>InMemorySubscriptionStore\<close>
  and the notifications delivered to the listeners of the manager, in the order of the
  \<open>emit\<close> calls. Listeners are taken to return normally, and what the logger is
  told leaves no trace here. A \<open>Map\<close> is an association list in insertion order.
\<close>

record state =
  intents :: "(string \<times> intent) list"
  subscriptions :: "(jsval \<times> subscription) list"
  payments :: "payment list"
  donations :: "(jsval \<times> donation) list"
  emitted :: "(string \<times> event_result) list"

text \<open>\<open>Map.get\<close>, \<open>Map.set\<close> and \<open>Map.delete\<close> with keys compared as \<open>===\<close> does.\<close>

fun map_get :: "(jsval \<times> 'v) list \<Rightarrow> jsval \<Rightarrow> 'v option" where
  "map_get [] k = None"
| "map_get ((k', v) # m) k = (if strict_eq k' k then Some v else map_get m k)"

fun map_has :: "(jsval \<times> 'v) list \<Rightarrow> jsval \<Rightarrow> bool" where
  "map_has [] k = False"
| "map_has ((k', v) # m) k = (strict_eq k' k \<or> map_has m k)"

fun map_replace :: "(jsval \<times> 'v) list \<Rightarrow> jsval \<Rightarrow> 'v \<Rightarrow> (jsval \<times> 'v) list" where
  "map_replace [] k v = []"
| "map_replace ((k', v') # m) k v =
     (if strict_eq k' k then (k', v) # m else (k', v') # map_replace m k v)"

definition map_set :: "(jsval \<times> 'v) list \<Rightarrow> jsval \<Rightarrow> 'v \<Rightarrow> (jsval \<times> 'v) list" where
  "map_set m k v = (if map_has m k then map_replace m k v else m @ [(k, v)])"

definition saveIntent :: "state \<Rightarrow> intent \<Rightarrow> state" where
  "saveIntent s i =
     s\<lparr>intents :=
          (if intent_id i \<in> fst ` set (intents s)
           then map (\<lambda>(k, v). if k = intent_id i then (k, i) else (k, v)) (intents s)
           else intents s @ [(intent_id i, i)])\<rparr>"


definition consumeIntent :: "state \<Rightarrow> string \<Rightarrow> intent option \<times> state" where
  "consumeIntent s intentId =
     (map_of (intents s) intentId,
      s\<lparr>intents := filter (\<lambda>(k, v). k \<noteq> intentId) (intents s)\<rparr>)"

text \<open>
  The loop of \<open>consumeIntentByTelegramAndPlan\<close> over \<open>this.intents.entries()\<close>: a
  matching entry is deleted in either case; an expired one lets the scan go on.
\<close>

fun consume_scan ::
  "int \<Rightarrow> jsval \<Rightarrow> string \<Rightarrow> (string \<times> intent) list \<Rightarrow> intent option \<times> (string \<times> intent) list" where
  "consume_scan now telegramUserId planId [] = (None, [])"
| "consume_scan now telegramUserId planId ((intentId, i) # rest) =
     (if intent_planId i = planId \<and> to_string (intent_telegramUserId i) = to_string telegramUserId
      then (if intent_expiresAt i < now then consume_scan now telegramUserId planId rest
            else (Some i, rest))
      else (case consume_scan now telegramUserId planId rest of
              (found, rest') \<Rightarrow> (found, (intentId, i) # rest')))"

definition consumeIntentByTelegramAndPlan ::
  "int \<Rightarrow> state \<Rightarrow> jsval \<Rightarrow> string \<Rightarrow> intent option \<times> state" where
  "consumeIntentByTelegramAndPlan now s telegramUserId planId =
     (case consume_scan now telegramUserId planId (intents s) of
        (found, rest) \<Rightarrow> (found, s\<lparr>intents := rest\<rparr>))"

definition upsertSubscription :: "state \<Rightarrow> subscription \<Rightarrow> subscription option \<times> state" where
  "upsertSubscription s sub =
     (map_get (subscriptions s) (sub_tributeSubscriptionId sub),
      s\<lparr>subscriptions := map_set (subscriptions s) (sub_tributeSubscriptionId sub) sub\<rparr>)"

definition getSubscriptionByTributeId :: "state \<Rightarrow> jsval \<Rightarrow> subscription option" where
  "getSubscriptionByTributeId s tributeSubscriptionId = map_get (subscriptions s) tributeSubscriptionId"

text \<open>\<open>new Date(v)\<close> as its time value; \<open>None\<close> is the invalid date.\<close>

fun new_Date :: "runtime \<Rightarrow> jsval \<Rightarrow> int option" where
  "new_Date rt (JStr t) = date_parse rt t"
| "new_Date rt (JNum n) = (if \<bar>n\<bar> \<le> 8640000000000000 then Some n else None)"
| "new_Date rt (JBool b) = Some (if b then 1 else 0)"
| "new_Date rt JNull = Some 0"
| "new_Date rt JUndefined = None"
| "new_Date rt (JArr xs) = date_parse rt (to_string (JArr xs))"
| "new_Date rt (JObj fs) = date_parse rt ''[object Object]''"

text \<open>
  The \<open>lastEventAt\<close> that both \<open>mark...Cancelled\<close> methods compute: the parsed
  \<open>cancellation.payload?.sent_at\<close> when it is there and valid, else \<open>cancelledAt\<close>.
\<close>

definition cancellation_lastEventAt :: "runtime \<Rightarrow> cancellation \<Rightarrow> int" where
  "cancellation_lastEventAt rt c =
     (if truthy (getp (can_payload c) ''sent_at'')
      then (case new_Date rt (getp (can_payload c) ''sent_at'') of
              None \<Rightarrow> can_cancelledAt c
            | Some parsed \<Rightarrow> parsed)
      else can_cancelledAt c)"

definition markSubscriptionCancelled ::
  "runtime \<Rightarrow> state \<Rightarrow> jsval \<Rightarrow> cancellation \<Rightarrow> subscription option \<times> state" where
  "markSubscriptionCancelled rt s tributeSubscriptionId c =
     (case map_get (subscriptions s) tributeSubscriptionId of
        None \<Rightarrow> (None, s)
      | Some sub \<Rightarrow>
          (let updated = sub\<lparr>sub_status := ''cancelled'',
                             sub_cancelledAt := Some (can_cancelledAt c),
                             sub_cancelReason := coalesce (can_cancelReason c) JNull,
                             sub_lastEventAt := cancellation_lastEventAt rt c\<rparr>
           in (Some updated,
               s\<lparr>subscriptions := map_set (subscriptions s) tributeSubscriptionId updated\<rparr>)))"

definition recordPayment :: "state \<Rightarrow> payment \<Rightarrow> state" where
  "recordPayment s p = s\<lparr>payments := payments s @ [p]\<rparr>"

definition upsertDonation :: "state \<Rightarrow> donation \<Rightarrow> donation option \<times> state" where
  "upsertDonation s don =
     (map_get (donations s) (don_donationRequestId don),
      s\<lparr>donations := map_set (donations s) (don_donationRequestId don) don\<rparr>)"

definition getDonationByRequestId :: "state \<Rightarrow> jsval \<Rightarrow> donation option" where
  "getDonationByRequestId s donationRequestId = map_get (donations s) donationRequestId"

definition markDonationCancelled ::
  "runtime \<Rightarrow> state \<Rightarrow> jsval \<Rightarrow> cancellation \<Rightarrow> donation option \<times> state" where
  "markDonationCancelled rt s donationRequestId c =
     (case map_get (donations s) donationRequestId of
        None \<Rightarrow> (None, s)
      | Some existing \<Rightarrow>
          (let updated = existing\<lparr>don_status := ''cancelled'',
                                  don_cancelledAt := Some (can_cancelledAt c),
                                  don_lastEventAt := cancellation_lastEventAt rt c\<rparr>
           in (Some updated,
               s\<lparr>donations := map_set (donations s) donationRequestId updated\<rparr>)))"

section \<open>TributeSubscriptionManager\<close>

text \<open>
  The external publisher is a function of the result: \<open>None\<close> when it returns,
  the thrown value when it raises (an \<open>Error\<close> object or anything else).
\<close>

datatype thrown = ThrownError error | ThrownValue jsval

datatype failure_mode = Throw | Log

record manager =
  plans :: "plan list"
  apiKey :: "string option"
  intentTtlMs :: int
  signatureEncoding :: encoding
  allowedWebhookEvents :: "string list"
  eventPublisher :: "(event_result \<Rightarrow> thrown option) option"
  eventPublisherFailureMode :: failure_mode

definition SUPPORTED_WEBHOOK_EVENTS :: "string list" where
  "SUPPORTED_WEBHOOK_EVENTS =
     [''new_subscription'', ''cancelled_subscription'', ''new_donation'',
      ''recurrent_donation'', ''cancelled_donation'']"

text \<open>What a call leaves behind: the error raised or the value returned, and the state.\<close>

type_synonym 'a outcome = "(error + 'a) \<times> state"

definition quoted :: "string \<Rightarrow> string" where
  "quoted name = [CHR 0x22] @ name @ [CHR 0x22]"

definition parseDate :: "runtime \<Rightarrow> jsval \<Rightarrow> string \<Rightarrow> error + int" where
  "parseDate rt v fieldName =
     (if \<not> truthy v
      then Inl (TributeConfigurationError
                  (''Tribute webhook is missing required '' @ quoted fieldName @ '' timestamp''))
      else case new_Date rt v of
        None \<Rightarrow> Inl (TributeConfigurationError
                       (''Invalid '' @ quoted fieldName @ '' timestamp: '' @ to_string v))
      | Some date \<Rightarrow> Inr date)"

text \<open>
  The date-like argument of the manual cancellation: a \<open>Date\<close> instance (\<open>None\<close>
  when it is an invalid date) or any other value.
\<close>

datatype date_like = DateObject "int option" | DateValue jsval

fun ensureDate :: "runtime \<Rightarrow> int \<Rightarrow> date_like \<Rightarrow> string \<Rightarrow> error + int" where
  "ensureDate rt now (DateObject None) fieldName =
     Inl (TributeConfigurationError (''Invalid Date provided for '' @ quoted fieldName))"
| "ensureDate rt now (DateObject (Some t)) fieldName = Inr t"
| "ensureDate rt now (DateValue JUndefined) fieldName = Inr now"
| "ensureDate rt now (DateValue JNull) fieldName = Inr now"
| "ensureDate rt now (DateValue (JNum n)) fieldName =
     (case new_Date rt (JNum n) of
        None \<Rightarrow> Inl (TributeConfigurationError (''Invalid Date provided for '' @ quoted fieldName))
      | Some t \<Rightarrow> Inr t)"
| "ensureDate rt now (DateValue (JStr t)) fieldName = parseDate rt (JStr t) fieldName"
| "ensureDate rt now (DateValue v) fieldName =
     Inl (TributeConfigurationError (''Unsupported value for '' @ quoted fieldName))"

definition getEventTimestamp :: "runtime \<Rightarrow> jsval \<Rightarrow> error + int" where
  "getEventTimestamp rt event =
     (if truthy (getp event ''sent_at'') then parseDate rt (getp event ''sent_at'') ''sent_at''
      else parseDate rt (getp event ''created_at'') ''created_at'')"

definition getEventCreatedAt :: "runtime \<Rightarrow> jsval \<Rightarrow> error + int" where
  "getEventCreatedAt rt event = parseDate rt (getp event ''created_at'') ''created_at''"

text \<open>The first argument is \<open>None\<close> when the stored value is no \<open>Date\<close>.\<close>

fun isOutdatedEvent :: "int option \<Rightarrow> int \<Rightarrow> bool" where
  "isOutdatedEvent None incoming = False"
| "isOutdatedEvent (Some previous) incoming = (previous \<ge> incoming)"

definition emit :: "string \<Rightarrow> event_result \<Rightarrow> state \<Rightarrow> state" where
  "emit name result s = s\<lparr>emitted := emitted s @ [(name, result)]\<rparr>"

text \<open>\<open>#publishEvent\<close>: \<open>None\<close> when it returns, the error when it raises.\<close>

definition publishEvent :: "manager \<Rightarrow> event_result \<Rightarrow> error option" where
  "publishEvent m result =
     (case eventPublisher m of
        None \<Rightarrow> None
      | Some publisher \<Rightarrow>
          (case publisher result of
             None \<Rightarrow> None
           | Some t \<Rightarrow>
               (if eventPublisherFailureMode m = Throw
                then Some (case t of ThrownError e \<Rightarrow> e | ThrownValue v \<Rightarrow> Error (to_string v))
                else None)))"

text \<open>
  The common tail of every handler: the three \<open>emit\<close> calls, \<open>await
  this.#publishEvent(result)\<close> and \<open>return result\<close>.
\<close>

definition emit_and_publish :: "manager \<Rightarrow> event_result \<Rightarrow> state \<Rightarrow> event_result option outcome" where
  "emit_and_publish m result s =
     (let s1 = emit (res_category result @ ''.'' @ res_type result) result s;
          s2 = emit (res_category result @ ''.any'') result s1;
          s3 = emit ''event'' result s2
      in case publishEvent m result of
           Some e \<Rightarrow> (Inl e, s3)
         | None \<Rightarrow> (Inr (Some result), s3))"

text \<open>\<open>#consumeIntentByTelegramAndPlan\<close>: the store has the method, so it is called.\<close>

definition manager_consumeIntentByTelegramAndPlan ::
  "int \<Rightarrow> state \<Rightarrow> jsval \<Rightarrow> string \<Rightarrow> intent option \<times> state" where
  "manager_consumeIntentByTelegramAndPlan now s telegramUserId planId =
     consumeIntentByTelegramAndPlan now s telegramUserId planId"

text \<open>\<open>#evaluateIntent\<close>; its warnings are not part of the state.\<close>

definition evaluateIntent :: "intent \<Rightarrow> plan \<Rightarrow> int \<Rightarrow> jsval \<Rightarrow> intent \<times> string" where
  "evaluateIntent i pl eventTimestamp telegramUserId =
     (i, if intent_expiresAt i < eventTimestamp then ''expired'' else ''matched'')"

text \<open>
  The intent block of \<open>#handleNewSubscription\<close>, entered when no subscription is
  stored under the id: by \<open>intent_id\<close> first, then by Telegram user and plan.
\<close>

definition resolve_intent ::
  "int \<Rightarrow> state \<Rightarrow> plan \<Rightarrow> jsval \<Rightarrow> int \<Rightarrow> (intent \<times> string) outcome" where
  "resolve_intent now s pl payload eventTimestamp =
     (let intentId = coalesce (getp payload ''intent_id'') (getp (getp payload ''metadata'') ''intent_id'');
          (found1, s1) = (if truthy intentId then consumeIntent s (to_string intentId) else (None, s));
          (found2, s2) = (if found1 = None \<and> getp payload ''telegram_user_id'' \<noteq> JUndefined
                          then manager_consumeIntentByTelegramAndPlan now s1
                                 (getp payload ''telegram_user_id'') (plan_id pl)
                          else (found1, s1))
      in case found2 of
           None \<Rightarrow> (Inl (TributeIntentNotFoundError (getp payload ''telegram_user_id'') (plan_id pl)), s2)
         | Some i \<Rightarrow> (Inr (evaluateIntent i pl eventTimestamp (getp payload ''telegram_user_id'')), s2))"

definition plan_currency_value :: "plan \<Rightarrow> jsval" where
  "plan_currency_value pl = (case plan_currency pl of None \<Rightarrow> JUndefined | Some c \<Rightarrow> JStr c)"

text \<open>\<open>existing?.field\<close> as a JavaScript value.\<close>

definition opt_field :: "('a \<Rightarrow> jsval) \<Rightarrow> 'a option \<Rightarrow> jsval" where
  "opt_field f existing = (case existing of None \<Rightarrow> JUndefined | Some x \<Rightarrow> f x)"


text \<open>The object literals of \<open>#handleNewSubscription\<close>: the record, its ledger entry, the context.\<close>

definition subscriptionRecord ::
  "plan \<Rightarrow> jsval \<Rightarrow> subscription option \<Rightarrow> intent option \<Rightarrow> int \<Rightarrow> int \<Rightarrow> int option \<Rightarrow> subscription" where
  "subscriptionRecord pl payload existingSubscription intent createdAt eventTimestamp expiresAt =
     \<lparr>sub_planId = plan_id pl,
      sub_tributeSubscriptionId = getp payload ''subscription_id'',
      sub_tributePeriodId = getp payload ''period_id'',
      sub_telegramUserId =
        coalesce (getp payload ''telegram_user_id'') (opt_field sub_telegramUserId existingSubscription),
      sub_userId =
        coalesce (coalesce (getp payload ''user_id'') (opt_field sub_userId existingSubscription)) JNull,
      sub_amount = coalesce (coalesce (getp payload ''price'') (getp payload ''amount'')) (plan_amount pl),
      sub_currency = coalesce (getp payload ''currency'') (plan_currency_value pl),
      sub_period = coalesce (getp payload ''period'') (plan_period pl),
      sub_status = ''active'',
      sub_createdAt = (case existingSubscription of None \<Rightarrow> createdAt | Some ex \<Rightarrow> sub_createdAt ex),
      sub_lastEventAt = eventTimestamp,
      sub_expiresAt = expiresAt,
      sub_cancelledAt = None,
      sub_cancelReason = JNull,
      sub_metadata =
        coalesce (coalesce (coalesce (opt_field sub_metadata existingSubscription)
                                     (opt_field intent_metadata intent))
                           (plan_metadata pl))
                 (JObj [])\<rparr>"

definition subscriptionPayment ::
  "jsval \<Rightarrow> subscription option \<Rightarrow> subscription \<Rightarrow> int \<Rightarrow> payment" where
  "subscriptionPayment payload existingSubscription rec createdAt =
     \<lparr>pay_kind = ''subscription'',
      pay_tributeSubscriptionId = sub_tributeSubscriptionId rec,
      pay_planId = JStr (sub_planId rec),
      pay_donationRequestId = JUndefined,
      pay_telegramUserId = sub_telegramUserId rec,
      pay_userId = coalesce (getp payload ''user_id'') (opt_field sub_userId existingSubscription),
      pay_amount = sub_amount rec,
      pay_currency = sub_currency rec,
      pay_paidAt = createdAt,
      pay_payload = payload\<rparr>"

definition subscriptionContext ::
  "jsval \<Rightarrow> intent option \<Rightarrow> string option \<Rightarrow> subscription option \<Rightarrow> event_context" where
  "subscriptionContext event intent intentStatus previous =
     \<lparr>ctx_event = event,
      ctx_intent = intent,
      ctx_intentStatus =
        (case intent of
           None \<Rightarrow> None
         | Some i \<Rightarrow> Some (case intentStatus of None \<Rightarrow> ''matched'' | Some st \<Rightarrow> st)),
      ctx_previousSubscription = previous,
      ctx_cancellation = None,
      ctx_cancellation_source = None\<rparr>"

text \<open>
  The intent and its status as \<open>#handleNewSubscription\<close> holds them after the
  intent block; both stay \<open>undefined\<close> when a subscription is stored already.
\<close>

definition intent_for ::
  "int \<Rightarrow> state \<Rightarrow> plan \<Rightarrow> jsval \<Rightarrow> int \<Rightarrow> subscription option
     \<Rightarrow> (intent option \<times> string option) outcome" where
  "intent_for now s pl payload eventTimestamp existingSubscription =
     (if existingSubscription = None
      then (case resolve_intent now s pl payload eventTimestamp of
              (Inl e, s1) \<Rightarrow> (Inl e, s1)
            | (Inr (i, st), s1) \<Rightarrow> (Inr (Some i, Some st), s1))
      else (Inr (None, None), s))"

text \<open>\<open>payload.expires_at ? parseDate(...) : existingSubscription?.expiresAt ?? null\<close>.\<close>

definition expiresAt_for :: "runtime \<Rightarrow> jsval \<Rightarrow> subscription option \<Rightarrow> error + int option" where
  "expiresAt_for rt payload existingSubscription =
     (if truthy (getp payload ''expires_at'')
      then map_sum id Some (parseDate rt (getp payload ''expires_at'') ''payload.expires_at'')
      else Inr (case existingSubscription of None \<Rightarrow> None | Some ex \<Rightarrow> sub_expiresAt ex))"

text \<open>
  The writes and the result of \<open>#handleNewSubscription\<close>, from
  \<open>upsertSubscription\<close> to the \<open>return\<close>.
\<close>

definition store_subscription ::
  "manager \<Rightarrow> jsval \<Rightarrow> jsval \<Rightarrow> subscription option \<Rightarrow> intent option \<Rightarrow> string option
     \<Rightarrow> int \<Rightarrow> subscription \<Rightarrow> state \<Rightarrow> event_result option outcome" where
  "store_subscription m event payload existingSubscription intent intentStatus createdAt rec s1 =
     (case upsertSubscription s1 rec of
        (previous, s2) \<Rightarrow>
          emit_and_publish m
            (SubscriptionEvent (if previous \<noteq> None then ''renewed'' else ''created'') rec
               (subscriptionContext event intent intentStatus previous))
            (recordPayment s2 (subscriptionPayment payload existingSubscription rec createdAt)))"

definition handleNewSubscription ::
  "runtime \<Rightarrow> manager \<Rightarrow> int \<Rightarrow> jsval \<Rightarrow> state \<Rightarrow> event_result option outcome" where
  "handleNewSubscription rt m now event s =
     (let payload = coalesce (getp event ''payload'') (JObj []) in
      case findPlanForPayload (plans m) payload of
        None \<Rightarrow> (Inl (plan_not_found payload), s)
      | Some pl \<Rightarrow>
      case getEventTimestamp rt event of
        Inl e \<Rightarrow> (Inl e, s)
      | Inr eventTimestamp \<Rightarrow>
      case getEventCreatedAt rt event of
        Inl e \<Rightarrow> (Inl e, s)
      | Inr createdAt \<Rightarrow>
      let existingSubscription =
            (if truthy (getp payload ''subscription_id'')
             then getSubscriptionByTributeId s (getp payload ''subscription_id'')
             else None) in
      if existingSubscription \<noteq> None
         \<and> isOutdatedEvent (Some (sub_lastEventAt (the existingSubscription))) eventTimestamp
      then (Inr None, s)
      else
      case intent_for now s pl payload eventTimestamp existingSubscription of
        (Inl e, s1) \<Rightarrow> (Inl e, s1)
      | (Inr (intent, intentStatus), s1) \<Rightarrow>
      case expiresAt_for rt payload existingSubscription of
        Inl e \<Rightarrow> (Inl e, s1)
      | Inr expiresAt \<Rightarrow>
          store_subscription m event payload existingSubscription intent intentStatus createdAt
            (subscriptionRecord pl payload existingSubscription intent createdAt eventTimestamp expiresAt)
            s1)"

text \<open>
  The object spread \<open>{ ...payload, sent_at: v }\<close>: the own enumerable properties
  of the payload (the entries of an object, the indexed elements of an array or of a
  string, none of another primitive) in their order, with \<open>sent_at\<close> set: a
  property of that name keeps its place and takes the new value, otherwise the
  property is added last.
\<close>

fun own_props :: "jsval \<Rightarrow> (string \<times> jsval) list" where
  "own_props (JObj fs) = fs"
| "own_props (JArr xs) = zip (map digits [0..<length xs]) xs"
| "own_props (JStr t) = zip (map digits [0..<length t]) (map (\<lambda>c. JStr [c]) t)"
| "own_props v = []"

definition spread_with :: "jsval \<Rightarrow> string \<Rightarrow> jsval \<Rightarrow> jsval" where
  "spread_with payload k v =
     JObj (if map_of (own_props payload) k = None then own_props payload @ [(k, v)]
           else map (\<lambda>(k', x). if k' = k then (k', v) else (k', x)) (own_props payload))"

text \<open>The context of a result that carries no intent.\<close>

definition eventContext :: "jsval \<Rightarrow> cancellation option \<Rightarrow> string option \<Rightarrow> event_context" where
  "eventContext event c source =
     \<lparr>ctx_event = event, ctx_intent = None, ctx_intentStatus = None,
      ctx_previousSubscription = None, ctx_cancellation = c,
      ctx_cancellation_source = source\<rparr>"

text \<open>
  What the subscription cancellation paths do with the record that
  \<open>markSubscriptionCancelled\<close> returned: raise its \<open>lastEventAt\<close> to the given
  timestamp when it is lower. The store returns the very object it keeps, so the
  assignment changes the stored entry too.
\<close>

definition raise_subscription_lastEventAt ::
  "jsval \<Rightarrow> subscription \<Rightarrow> int \<Rightarrow> state \<Rightarrow> subscription \<times> state" where
  "raise_subscription_lastEventAt tributeSubscriptionId updated ts s1 =
     (let updatedSubscription =
            (if sub_lastEventAt updated < ts then updated\<lparr>sub_lastEventAt := ts\<rparr> else updated)
      in (updatedSubscription,
          s1\<lparr>subscriptions := map_set (subscriptions s1) tributeSubscriptionId updatedSubscription\<rparr>))"

definition raise_donation_lastEventAt ::
  "jsval \<Rightarrow> donation \<Rightarrow> int \<Rightarrow> state \<Rightarrow> donation \<times> state" where
  "raise_donation_lastEventAt donationRequestId updated ts s1 =
     (let don = (if don_lastEventAt updated < ts then updated\<lparr>don_lastEventAt := ts\<rparr> else updated)
      in (don, s1\<lparr>donations := map_set (donations s1) donationRequestId don\<rparr>))"

definition subscription_cancellation :: "jsval \<Rightarrow> jsval \<Rightarrow> int \<Rightarrow> cancellation" where
  "subscription_cancellation event payload cancellationAt =
     \<lparr>can_cancelledAt = cancellationAt,
      can_cancelReason = coalesce (getp payload ''cancel_reason'') JNull,
      can_payload = spread_with payload ''sent_at'' (getp event ''sent_at'')\<rparr>"

definition handleCancelledSubscription ::
  "runtime \<Rightarrow> manager \<Rightarrow> jsval \<Rightarrow> state \<Rightarrow> event_result option outcome" where
  "handleCancelledSubscription rt m event s =
     (let payload = coalesce (getp event ''payload'') (JObj []) in
      case findPlanForPayload (plans m) payload of
        None \<Rightarrow> (Inl (plan_not_found payload), s)
      | Some pl \<Rightarrow>
      case getEventTimestamp rt event of
        Inl e \<Rightarrow> (Inl e, s)
      | Inr eventTimestamp \<Rightarrow>
      case getEventCreatedAt rt event of
        Inl e \<Rightarrow> (Inl e, s)
      | Inr cancellationAt \<Rightarrow>
      let existingSubscription =
            (if truthy (getp payload ''subscription_id'')
             then getSubscriptionByTributeId s (getp payload ''subscription_id'')
             else None) in
      if existingSubscription \<noteq> None
         \<and> sub_cancelledAt (the existingSubscription) \<noteq> None
         \<and> isOutdatedEvent (sub_cancelledAt (the existingSubscription)) cancellationAt
      then (Inr None, s)
      else if existingSubscription \<noteq> None
         \<and> isOutdatedEvent (Some (sub_lastEventAt (the existingSubscription))) eventTimestamp
      then (Inr None, s)
      else
      case markSubscriptionCancelled rt s (getp payload ''subscription_id'')
             (subscription_cancellation event payload cancellationAt) of
        (None, s1) \<Rightarrow> (Inl (TributeSubscriptionNotFoundError (getp payload ''subscription_id'')), s1)
      | (Some updated, s1) \<Rightarrow>
      case raise_subscription_lastEventAt (getp payload ''subscription_id'') updated eventTimestamp s1 of
        (updatedSubscription, s2) \<Rightarrow>
          emit_and_publish m
            (SubscriptionEvent ''cancelled'' updatedSubscription
               (eventContext event (Some (subscription_cancellation event payload cancellationAt)) None))
            s2)"

text \<open>The object literals of the donation handlers.\<close>

definition anonymously_of :: "jsval \<Rightarrow> donation option \<Rightarrow> jsval" where
  "anonymously_of payload existing =
     (case getp payload ''anonymously'' of
        JBool b \<Rightarrow> JBool b
      | _ \<Rightarrow> coalesce (opt_field don_anonymously existing) (JBool False))"

definition newDonationRecord :: "jsval \<Rightarrow> donation option \<Rightarrow> jsval \<Rightarrow> int \<Rightarrow> int \<Rightarrow> donation" where
  "newDonationRecord payload existing period createdAt eventTimestamp =
     \<lparr>don_donationRequestId = getp payload ''donation_request_id'',
      don_donationName =
        coalesce (coalesce (getp payload ''donation_name'') (opt_field don_donationName existing)) (JStr []),
      don_telegramUserId =
        coalesce (getp payload ''telegram_user_id'') (opt_field don_telegramUserId existing),
      don_userId = coalesce (coalesce (getp payload ''user_id'') (opt_field don_userId existing)) JNull,
      don_period = period,
      don_amount = coalesce (coalesce (getp payload ''amount'') (opt_field don_amount existing)) (JNum 0),
      don_currency = coalesce (coalesce (getp payload ''currency'') (opt_field don_currency existing)) (JStr []),
      don_anonymously = anonymously_of payload existing,
      don_message = coalesce (coalesce (getp payload ''message'') (opt_field don_message existing)) JNull,
      don_webAppLink =
        coalesce (coalesce (getp payload ''web_app_link'') (opt_field don_webAppLink existing)) JNull,
      don_status = (if strict_eq period (JStr ''once'') then ''completed'' else ''active''),
      don_createdAt = createdAt,
      don_lastEventAt = eventTimestamp,
      don_cancelledAt = None,
      don_metadata = coalesce (opt_field don_metadata existing) (JObj [])\<rparr>"

definition recurrentDonationRecord :: "jsval \<Rightarrow> donation option \<Rightarrow> int \<Rightarrow> int \<Rightarrow> donation" where
  "recurrentDonationRecord payload existing createdAt eventTimestamp =
     \<lparr>don_donationRequestId = getp payload ''donation_request_id'',
      don_donationName =
        coalesce (coalesce (getp payload ''donation_name'') (opt_field don_donationName existing)) (JStr []),
      don_telegramUserId =
        coalesce (getp payload ''telegram_user_id'') (opt_field don_telegramUserId existing),
      don_userId = coalesce (coalesce (getp payload ''user_id'') (opt_field don_userId existing)) JNull,
      don_period =
        coalesce (coalesce (getp payload ''period'') (opt_field don_period existing)) (JStr ''monthly''),
      don_amount = coalesce (coalesce (getp payload ''amount'') (opt_field don_amount existing)) (JNum 0),
      don_currency = coalesce (coalesce (getp payload ''currency'') (opt_field don_currency existing)) (JStr []),
      don_anonymously = anonymously_of payload existing,
      don_message = coalesce (opt_field don_message existing) (coalesce (getp payload ''message'') JNull),
      don_webAppLink =
        coalesce (coalesce (getp payload ''web_app_link'') (opt_field don_webAppLink existing)) JNull,
      don_status =
        (if existing \<noteq> None \<and> don_status (the existing) = ''cancelled''
         then ''cancelled'' else ''active''),
      don_createdAt = createdAt,
      don_lastEventAt = eventTimestamp,
      don_cancelledAt = (case existing of None \<Rightarrow> None | Some ex \<Rightarrow> don_cancelledAt ex),
      don_metadata = coalesce (opt_field don_metadata existing) (JObj [])\<rparr>"

definition donationPayment :: "jsval \<Rightarrow> donation \<Rightarrow> int \<Rightarrow> payment" where
  "donationPayment payload rec createdAt =
     \<lparr>pay_kind = ''donation'',
      pay_tributeSubscriptionId = JUndefined,
      pay_planId = JUndefined,
      pay_donationRequestId = don_donationRequestId rec,
      pay_telegramUserId = don_telegramUserId rec,
      pay_userId = coalesce (don_userId rec) JUndefined,
      pay_amount = don_amount rec,
      pay_currency = don_currency rec,
      pay_paidAt = createdAt,
      pay_payload = payload\<rparr>"

text \<open>
  The writes and the result shared by \<open>#handleNewDonation\<close> and
  \<open>#handleRecurrentDonation\<close>, from \<open>upsertDonation\<close> to the \<open>return\<close>; the
  ledger entry takes the handler's \<open>createdAt\<close> as \<open>paidAt\<close>.
\<close>

definition store_donation ::
  "manager \<Rightarrow> string \<Rightarrow> jsval \<Rightarrow> jsval \<Rightarrow> int \<Rightarrow> donation \<Rightarrow> state \<Rightarrow> event_result option outcome" where
  "store_donation m type event payload createdAt rec s =
     (case upsertDonation s rec of
        (previous, s1) \<Rightarrow>
          emit_and_publish m
            (DonationEvent type rec (eventContext event None None))
            (recordPayment s1 (donationPayment payload rec createdAt)))"

text \<open>\<open>existing?.createdAt ?? this.#getEventCreatedAt(event)\<close>.\<close>

definition donation_createdAt :: "runtime \<Rightarrow> jsval \<Rightarrow> donation option \<Rightarrow> error + int" where
  "donation_createdAt rt event existing =
     (case existing of None \<Rightarrow> getEventCreatedAt rt event | Some ex \<Rightarrow> Inr (don_createdAt ex))"

definition handleNewDonation ::
  "runtime \<Rightarrow> manager \<Rightarrow> jsval \<Rightarrow> state \<Rightarrow> event_result option outcome" where
  "handleNewDonation rt m event s =
     (let payload = coalesce (getp event ''payload'') (JObj []);
          donationRequestId = getp payload ''donation_request_id'' in
      if nullish donationRequestId
      then (Inl (TributeConfigurationError ''donation_request_id is required for donation events''), s)
      else if nullish (getp payload ''telegram_user_id'')
      then (Inl (TributeConfigurationError ''telegram_user_id is required for donation events''), s)
      else
      let existing = getDonationByRequestId s donationRequestId;
          period = coalesce (coalesce (getp payload ''period'') (opt_field don_period existing)) (JStr ''once'') in
      case getEventTimestamp rt event of
        Inl e \<Rightarrow> (Inl e, s)
      | Inr eventTimestamp \<Rightarrow>
      case donation_createdAt rt event existing of
        Inl e \<Rightarrow> (Inl e, s)
      | Inr createdAt \<Rightarrow>
      if existing \<noteq> None \<and> isOutdatedEvent (Some (don_lastEventAt (the existing))) eventTimestamp
      then (Inr None, s)
      else store_donation m ''created'' event payload createdAt
             (newDonationRecord payload existing period createdAt eventTimestamp) s)"

definition handleRecurrentDonation ::
  "runtime \<Rightarrow> manager \<Rightarrow> jsval \<Rightarrow> state \<Rightarrow> event_result option outcome" where
  "handleRecurrentDonation rt m event s =
     (let payload = coalesce (getp event ''payload'') (JObj []);
          donationRequestId = getp payload ''donation_request_id'' in
      if nullish donationRequestId
      then (Inl (TributeConfigurationError ''donation_request_id is required for donation events''), s)
      else if nullish (getp payload ''telegram_user_id'')
      then (Inl (TributeConfigurationError ''telegram_user_id is required for donation events''), s)
      else
      let existing = getDonationByRequestId s donationRequestId in
      case getEventTimestamp rt event of
        Inl e \<Rightarrow> (Inl e, s)
      | Inr eventTimestamp \<Rightarrow>
      case donation_createdAt rt event existing of
        Inl e \<Rightarrow> (Inl e, s)
      | Inr createdAt \<Rightarrow>
      if existing \<noteq> None \<and> isOutdatedEvent (Some (don_lastEventAt (the existing))) eventTimestamp
      then (Inr None, s)
      else store_donation m ''recurrent'' event payload createdAt
             (recurrentDonationRecord payload existing createdAt eventTimestamp) s)"

definition donation_cancellation :: "jsval \<Rightarrow> jsval \<Rightarrow> int \<Rightarrow> cancellation" where
  "donation_cancellation event payload cancelledAt =
     \<lparr>can_cancelledAt = cancelledAt,
      can_cancelReason = JUndefined,
      can_payload = spread_with payload ''sent_at'' (getp event ''sent_at'')\<rparr>"

definition handleCancelledDonation ::
  "runtime \<Rightarrow> manager \<Rightarrow> jsval \<Rightarrow> state \<Rightarrow> event_result option outcome" where
  "handleCancelledDonation rt m event s =
     (let payload = coalesce (getp event ''payload'') (JObj []);
          donationRequestId = getp payload ''donation_request_id'' in
      if nullish donationRequestId
      then (Inl (TributeConfigurationError ''donation_request_id is required for donation events''), s)
      else
      case getEventTimestamp rt event of
        Inl e \<Rightarrow> (Inl e, s)
      | Inr eventTimestamp \<Rightarrow>
      case getEventCreatedAt rt event of
        Inl e \<Rightarrow> (Inl e, s)
      | Inr cancelledAt \<Rightarrow>
      let existing = getDonationByRequestId s donationRequestId in
      if existing \<noteq> None
         \<and> don_cancelledAt (the existing) \<noteq> None
         \<and> isOutdatedEvent (don_cancelledAt (the existing)) cancelledAt
      then (Inr None, s)
      else if existing \<noteq> None
         \<and> isOutdatedEvent (Some (don_lastEventAt (the existing))) eventTimestamp
      then (Inr None, s)
      else
      case markDonationCancelled rt s donationRequestId (donation_cancellation event payload cancelledAt) of
        (None, s1) \<Rightarrow> (Inl (TributeDonationNotFoundError donationRequestId), s1)
      | (Some updated, s1) \<Rightarrow>
      case raise_donation_lastEventAt donationRequestId updated eventTimestamp s1 of
        (don, s2) \<Rightarrow>
          emit_and_publish m
            (DonationEvent ''cancelled'' don
               (eventContext event (Some (donation_cancellation event payload cancelledAt)) None))
            s2)"

text \<open>The options of \<open>cancelSubscriptionLocally\<close>; a missing property is \<open>undefined\<close>.\<close>

record manual_cancellation_options =
  opt_tributeSubscriptionId :: jsval
  opt_cancelReason :: jsval
  opt_cancelledAt :: date_like
  opt_payload :: jsval

definition manual_cancellation :: "manual_cancellation_options \<Rightarrow> int \<Rightarrow> cancellation" where
  "manual_cancellation options cancellationTimestamp =
     \<lparr>can_cancelledAt = cancellationTimestamp,
      can_cancelReason =
        coalesce (if opt_cancelReason options = JUndefined then JStr ''manual''
                  else opt_cancelReason options) JNull,
      can_payload = coalesce (opt_payload options) JUndefined\<rparr>"

definition cancelSubscriptionLocally ::
  "runtime \<Rightarrow> manager \<Rightarrow> int \<Rightarrow> manual_cancellation_options \<Rightarrow> state \<Rightarrow> event_result outcome" where
  "cancelSubscriptionLocally rt m now options s =
     (let tributeSubscriptionId = opt_tributeSubscriptionId options;
          cancelledAt = (if opt_cancelledAt options = DateValue JUndefined then DateObject (Some now)
                         else opt_cancelledAt options) in
      if nullish tributeSubscriptionId \<or> tributeSubscriptionId = JStr []
      then (Inl (TributeConfigurationError ''tributeSubscriptionId is required to cancel subscription''), s)
      else
      case ensureDate rt now cancelledAt ''cancelledAt'' of
        Inl e \<Rightarrow> (Inl e, s)
      | Inr cancellationTimestamp \<Rightarrow>
      case markSubscriptionCancelled rt s tributeSubscriptionId
             (manual_cancellation options cancellationTimestamp) of
        (None, s1) \<Rightarrow> (Inl (TributeSubscriptionNotFoundError tributeSubscriptionId), s1)
      | (Some updated, s1) \<Rightarrow>
      case raise_subscription_lastEventAt tributeSubscriptionId updated cancellationTimestamp s1 of
        (updatedSubscription, s2) \<Rightarrow>
          (case emit_and_publish m
                  (SubscriptionEvent ''cancelled'' updatedSubscription
                     (eventContext JUndefined (Some (manual_cancellation options cancellationTimestamp))
                        (Some ''manual'')))
                  s2 of
             (Inl e, s3) \<Rightarrow> (Inl e, s3)
           | (Inr r, s3) \<Rightarrow>
               (Inr (SubscriptionEvent ''cancelled'' updatedSubscription
                       (eventContext JUndefined (Some (manual_cancellation options cancellationTimestamp))
                          (Some ''manual''))), s3)))"

text \<open>
  \<open>createSubscriptionIntent\<close>; the identifier drawn by \<open>randomUUID()\<close> and the
  clock reading are arguments.
\<close>

definition createSubscriptionIntent ::
  "manager \<Rightarrow> int \<Rightarrow> string \<Rightarrow> string \<Rightarrow> jsval \<Rightarrow> jsval \<Rightarrow> state
     \<Rightarrow> (string \<times> string \<times> plan) outcome" where
  "createSubscriptionIntent m now uuid planId telegramUserId metadata s =
     (case find (\<lambda>p. plan_id p = planId) (plans m) of
        None \<Rightarrow> (Inl (TributePlanNotFoundError planId), s)
      | Some pl \<Rightarrow>
          (if nullish telegramUserId \<or> telegramUserId = JStr []
           then (Inl (TributeConfigurationError ''telegramUserId is required to create subscription intent''), s)
           else (Inr (uuid, plan_subscriptionLink pl, pl),
                 saveIntent s \<lparr>intent_id = uuid, intent_planId = plan_id pl,
                                intent_telegramUserId = telegramUserId, intent_createdAt = now,
                                intent_expiresAt = now + intentTtlMs m,
                                intent_metadata = (if metadata = JUndefined then JObj [] else metadata)\<rparr>)))"

text \<open>\<open>this.allowedWebhookEvents.has(event.name)\<close> on a set of strings.\<close>

definition allowed_has :: "manager \<Rightarrow> jsval \<Rightarrow> bool" where
  "allowed_has m name = (case name of JStr n \<Rightarrow> n \<in> set (allowedWebhookEvents m) | _ \<Rightarrow> False)"

text \<open>
  The part of \<open>handleWebhook\<close> after \<open>JSON.parse\<close>: the allow-list and the
  \<open>switch\<close>. Reading \<open>event.name\<close> of \<open>null\<close> raises.
\<close>

definition dispatch ::
  "runtime \<Rightarrow> manager \<Rightarrow> int \<Rightarrow> jsval \<Rightarrow> state \<Rightarrow> event_result option outcome" where
  "dispatch rt m now event s =
     (if nullish event
      then (Inl (TypeError ''Cannot read properties of null (reading 'name')''), s)
      else if \<not> allowed_has m (getp event ''name'') then (Inr None, s)
      else if getp event ''name'' = JStr ''new_subscription'' then handleNewSubscription rt m now event s
      else if getp event ''name'' = JStr ''cancelled_subscription'' then handleCancelledSubscription rt m event s
      else if getp event ''name'' = JStr ''new_donation'' then handleNewDonation rt m event s
      else if getp event ''name'' = JStr ''recurrent_donation'' then handleRecurrentDonation rt m event s
      else if getp event ''name'' = JStr ''cancelled_donation'' then handleCancelledDonation rt m event s
      else (Inr None, s))"

text \<open>
  \<open>handleWebhook\<close> on a \<open>Buffer\<close> holding the bytes \<open>rawBody\<close>, read at clock
  time \<open>now\<close>.
\<close>

definition handleWebhook ::
  "runtime \<Rightarrow> manager \<Rightarrow> int \<Rightarrow> string \<Rightarrow> string option \<Rightarrow> state \<Rightarrow> event_result option outcome" where
  "handleWebhook rt m now rawBody signatureHeader s =
     (case verifyTributeSignature rt (RawBuffer rawBody) signatureHeader (apiKey m) (signatureEncoding m) of
        Inl e \<Rightarrow> (Inl e, s)
      | Inr isValid \<Rightarrow>
          (if \<not> isValid then (Inl TributeSignatureError, s)
           else case json_parse rt rawBody of
             None \<Rightarrow> (Inl SyntaxError, s)
           | Some event \<Rightarrow> dispatch rt m now event s))"

section \<open>Plan resolution as the specification words it\<close>

text \<open>
  The matching rule read off the specification: every optional matching field of the
  plan is either unset or equal to the corresponding field of the payload, the currency
  without regard to case, the amount against the payload's amount or else its price.
\<close>

definition spec_field_matches :: "jsval \<Rightarrow> jsval \<Rightarrow> bool" where
  "spec_field_matches planField payloadField = (planField = JUndefined \<or> strict_eq planField payloadField)"

definition spec_plan_matches :: "plan \<Rightarrow> jsval \<Rightarrow> bool" where
  "spec_plan_matches pl payload =
     (spec_field_matches (plan_tributeSubscriptionId pl) (getp payload ''subscription_id'')
      \<and> spec_field_matches (plan_tributePeriodId pl) (getp payload ''period_id'')
      \<and> spec_field_matches (plan_price pl) (getp payload ''price'')
      \<and> (plan_currency pl = None
           \<or> toLowerCase (the (plan_currency pl))
               = toLowerCase (to_string (coalesce (getp payload ''currency'') (JStr []))))
      \<and> spec_field_matches (plan_period pl) (getp payload ''period'')
      \<and> (spec_field_matches (plan_amount pl) (getp payload ''amount'')
           \<or> spec_field_matches (plan_amount pl) (getp payload ''price'')))"

definition spec_findPlanForPayload :: "plan list \<Rightarrow> jsval \<Rightarrow> plan option" where
  "spec_findPlanForPayload ps payload = find (\<lambda>pl. spec_plan_matches pl payload) ps"

text \<open>
  The rule with the period test as the code has it: the period counts only when the
  plan and the payload both carry a non-empty one, and then by its string form.
\<close>

definition period_compatible :: "jsval \<Rightarrow> jsval \<Rightarrow> bool" where
  "period_compatible planPeriod payloadPeriod =
     (\<not> truthy planPeriod \<or> \<not> truthy payloadPeriod \<or> to_string planPeriod = to_string payloadPeriod)"

definition amended_plan_matches :: "plan \<Rightarrow> jsval \<Rightarrow> bool" where
  "amended_plan_matches pl payload =
     (spec_field_matches (plan_tributeSubscriptionId pl) (getp payload ''subscription_id'')
      \<and> spec_field_matches (plan_tributePeriodId pl) (getp payload ''period_id'')
      \<and> spec_field_matches (plan_price pl) (getp payload ''price'')
      \<and> (plan_currency pl = None
           \<or> toLowerCase (the (plan_currency pl))
               = toLowerCase (to_string (coalesce (getp payload ''currency'') (JStr []))))
      \<and> period_compatible (plan_period pl) (getp payload ''period'')
      \<and> (spec_field_matches (plan_amount pl) (getp payload ''amount'')
           \<or> spec_field_matches (plan_amount pl) (getp payload ''price'')))"

section \<open>Auxiliary notions of the statements\<close>

text \<open>A value that is no object and no array, so that \<open>===\<close> compares it by value.\<close>

fun is_primitive :: "jsval \<Rightarrow> bool" where
  "is_primitive (JObj fs) = False"
| "is_primitive (JArr xs) = False"
| "is_primitive v = True"

text \<open>The manager with the external publisher taken away.\<close>

definition without_publisher :: "manager \<Rightarrow> manager" where
  "without_publisher m = m\<lparr>eventPublisher := None\<rparr>"

text \<open>
  What the publisher step makes of the outcome of a run without publisher: an accepted
  result becomes the publisher's error when \<open>#publishEvent\<close> raises; the state
  stays.
\<close>

definition after_publish :: "manager \<Rightarrow> event_result option outcome \<Rightarrow> event_result option outcome" where
  "after_publish m out =
     (case out of
        (Inr (Some r), s') \<Rightarrow> (case publishEvent m r of Some e \<Rightarrow> (Inl e, s') | None \<Rightarrow> (Inr (Some r), s'))
      | _ \<Rightarrow> out)"

text \<open>The entity of a result is held by the store.\<close>

fun entity_stored :: "event_result \<Rightarrow> state \<Rightarrow> bool" where
  "entity_stored (SubscriptionEvent t sub c) s = (sub \<in> snd ` set (subscriptions s))"
| "entity_stored (DonationEvent t don c) s = (don \<in> snd ` set (donations s))"

text \<open>
  The ledger after an accepted event: one entry more, after the entries it had, unless
  the event is a cancellation, which leaves the ledger alone.
\<close>

definition ledger_appended :: "event_result \<Rightarrow> state \<Rightarrow> state \<Rightarrow> bool" where
  "ledger_appended r s s' =
     (if res_type r = ''cancelled'' then payments s' = payments s
      else payments s' \<noteq> [] \<and> butlast (payments s') = payments s)"

text \<open>The error that \<open>#publishEvent\<close> raises in mode \<open>throw\<close> for a thrown value.\<close>

fun rethrown :: "thrown \<Rightarrow> error" where
  "rethrown (ThrownError e) = e"
| "rethrown (ThrownValue v) = Error (to_string v)"

text \<open>The three notifications of a result, in the order of the \<open>emit\<close> calls.\<close>

definition notifications :: "event_result \<Rightarrow> (string \<times> event_result) list" where
  "notifications r =
     [(res_category r @ ''.'' @ res_type r, r), (res_category r @ ''.any'', r), (''event'', r)]"

fun fails_with_configuration_error :: "error + 'a \<Rightarrow> bool" where
  "fails_with_configuration_error (Inl e) = is_configuration_error e"
| "fails_with_configuration_error (Inr v) = False"

fun result_type :: "error + event_result option \<Rightarrow> string option" where
  "result_type (Inr (Some r)) = Some (res_type r)"
| "result_type out = None"

section \<open>A concrete configuration\<close>

text \<open>
  A host environment for running the model on concrete inputs: a keyed digest that is
  only a stand-in for HMAC-SHA256, the identity as decoding, and tables for the bodies
  and timestamps used below.
\<close>

definition T0 :: int where "T0 = 1742342400000"
definition T1 :: int where "T1 = 1742433358000"
definition T2 :: int where "T2 = 1742556044000"
definition T3 :: int where "T3 = 1745111758000"

definition ex_date_parse :: "string \<Rightarrow> int option" where
  "ex_date_parse =
     map_of [(''2025-03-19T00:00:00.000Z'', T0),
             (''2025-03-20T01:15:58.000Z'', T1),
             (''2025-03-21T11:20:44.000Z'', T2),
             (''2025-04-20T01:15:58.000Z'', T3)]"

definition plan_m10 :: plan where
  "plan_m10 =
     \<lparr>plan_id = ''m10'', plan_title = ''Monthly 10 EUR'', plan_amount = JNum 1000,
      plan_currency = Some ''eur'', plan_period = JStr ''monthly'',
      plan_subscriptionLink = ''https://t.me/tribute/app?startapp=plan10'',
      plan_tributeSubscriptionId = JNum 1644, plan_tributePeriodId = JNum 1547,
      plan_price = JUndefined, plan_metadata = JUndefined\<rparr>"

definition plan_open :: plan where
  "plan_open =
     \<lparr>plan_id = ''placeholder'', plan_title = ''Placeholder'', plan_amount = JNum 500,
      plan_currency = Some ''usd'', plan_period = JStr ''monthly'',
      plan_subscriptionLink = ''https://t.me/tribute/app?startapp=placeholder'',
      plan_tributeSubscriptionId = JUndefined, plan_tributePeriodId = JUndefined,
      plan_price = JUndefined, plan_metadata = JUndefined\<rparr>"

definition payload_1644 :: jsval where
  "payload_1644 =
     JObj [(''subscription_id'', JNum 1644), (''period_id'', JNum 1547), (''period'', JStr ''monthly''),
           (''price'', JNum 1000), (''amount'', JNum 1000), (''currency'', JStr ''eur''),
           (''telegram_user_id'', JNum 123456), (''intent_id'', JStr ''intent-1'')]"

definition payload_1644_no_period :: jsval where
  "payload_1644_no_period =
     JObj [(''subscription_id'', JNum 1644), (''period_id'', JNum 1547),
           (''price'', JNum 1000), (''amount'', JNum 1000), (''currency'', JStr ''EUR''),
           (''telegram_user_id'', JNum 123456)]"

definition payload_unknown_plan :: jsval where
  "payload_unknown_plan =
     JObj [(''subscription_id'', JNum 9999), (''period_id'', JNum 1), (''price'', JNum 1),
           (''currency'', JStr ''gbp''), (''telegram_user_id'', JNum 123456)]"

definition ev_new_subscription :: jsval where
  "ev_new_subscription =
     JObj [(''name'', JStr ''new_subscription''),
           (''created_at'', JStr ''2025-03-20T01:15:58.000Z''),
           (''sent_at'', JStr ''2025-03-20T01:15:58.000Z''),
           (''payload'', payload_1644)]"

definition ev_unknown_plan :: jsval where
  "ev_unknown_plan =
     JObj [(''name'', JStr ''new_subscription''),
           (''created_at'', JStr ''2025-03-20T01:15:58.000Z''),
           (''sent_at'', JStr ''2025-03-20T01:15:58.000Z''),
           (''payload'', payload_unknown_plan)]"

definition payload_no_id :: jsval where
  "payload_no_id =
     JObj [(''period'', JStr ''monthly''), (''amount'', JNum 500), (''currency'', JStr ''usd''),
           (''telegram_user_id'', JNum 789)]"

definition ev_no_id_first :: jsval where
  "ev_no_id_first =
     JObj [(''name'', JStr ''new_subscription''),
           (''created_at'', JStr ''2025-03-20T01:15:58.000Z''),
           (''sent_at'', JStr ''2025-03-20T01:15:58.000Z''),
           (''payload'', payload_no_id)]"

definition ev_no_id_older :: jsval where
  "ev_no_id_older =
     JObj [(''name'', JStr ''new_subscription''),
           (''created_at'', JStr ''2025-03-19T00:00:00.000Z''),
           (''sent_at'', JStr ''2025-03-19T00:00:00.000Z''),
           (''payload'', payload_no_id)]"

text \<open>A subscription whose provider id is the number zero, for the plan without provider identifiers.\<close>

definition payload_id_zero :: jsval where
  "payload_id_zero =
     JObj [(''subscription_id'', JNum 0), (''period'', JStr ''monthly''), (''amount'', JNum 500),
           (''currency'', JStr ''usd''), (''telegram_user_id'', JNum 789)]"

definition ev_id_zero :: jsval where
  "ev_id_zero =
     JObj [(''name'', JStr ''new_subscription''),
           (''created_at'', JStr ''2025-03-20T01:15:58.000Z''),
           (''sent_at'', JStr ''2025-03-20T01:15:58.000Z''),
           (''payload'', payload_id_zero)]"

text \<open>The next period of subscription 1644, paid a month after \<open>ev_new_subscription\<close>.\<close>

definition ev_renewal_1644 :: jsval where
  "ev_renewal_1644 =
     JObj [(''name'', JStr ''new_subscription''),
           (''created_at'', JStr ''2025-04-20T01:15:58.000Z''),
           (''sent_at'', JStr ''2025-04-20T01:15:58.000Z''),
           (''payload'', payload_1644)]"

definition payload_donation_501 :: jsval where
  "payload_donation_501 =
     JObj [(''donation_request_id'', JNum 501), (''donation_name'', JStr ''Support project''),
           (''period'', JStr ''monthly''), (''amount'', JNum 1000), (''currency'', JStr ''usd''),
           (''anonymously'', JBool False), (''telegram_user_id'', JNum 987654),
           (''user_id'', JNum 555)]"

definition ev_new_donation :: jsval where
  "ev_new_donation =
     JObj [(''name'', JStr ''new_donation''),
           (''created_at'', JStr ''2025-03-20T01:15:58.000Z''),
           (''sent_at'', JStr ''2025-03-20T01:15:58.000Z''),
           (''payload'', payload_donation_501)]"

definition ev_cancelled_donation :: jsval where
  "ev_cancelled_donation =
     JObj [(''name'', JStr ''cancelled_donation''),
           (''created_at'', JStr ''2025-03-21T11:20:44.000Z''),
           (''sent_at'', JStr ''2025-03-21T11:20:44.000Z''),
           (''payload'', JObj [(''donation_request_id'', JNum 501)])]"

definition ev_recurrent_donation :: jsval where
  "ev_recurrent_donation =
     JObj [(''name'', JStr ''recurrent_donation''),
           (''created_at'', JStr ''2025-04-20T01:15:58.000Z''),
           (''sent_at'', JStr ''2025-04-20T01:15:58.000Z''),
           (''payload'', payload_donation_501)]"

definition ex_json_parse :: "string \<Rightarrow> jsval option" where
  "ex_json_parse =
     map_of [(''<new_subscription 1644>'', ev_new_subscription),
             (''<new_subscription without id, first>'', ev_no_id_first),
             (''<new_subscription without id, older>'', ev_no_id_older),
             (''<new_donation 501>'', ev_new_donation),
             (''<cancelled_donation 501>'', ev_cancelled_donation),
             (''<recurrent_donation 501>'', ev_recurrent_donation),
             (''<new_subscription 0>'', ev_id_zero),
             (''<new_subscription 1644, renewal>'', ev_renewal_1644)]"

definition ex_rt :: runtime where
  "ex_rt =
     \<lparr>hmac_digest = (\<lambda>key body enc. ''mac:'' @ key @ '':'' @ body),
      buffer_from = (\<lambda>text enc. text),
      json_parse = ex_json_parse,
      date_parse = ex_date_parse\<rparr>"

text \<open>The signature header that goes with a body under the key of the managers below.\<close>

definition ex_sign :: "string \<Rightarrow> string option" where
  "ex_sign body = Some (hmac_digest ex_rt ''test-secret'' body Hex)"

definition ex_manager :: manager where
  "ex_manager =
     \<lparr>plans = [plan_m10, plan_open], apiKey = Some ''test-secret'', intentTtlMs = 900000,
      signatureEncoding = Hex, allowedWebhookEvents = SUPPORTED_WEBHOOK_EVENTS,
      eventPublisher = None, eventPublisherFailureMode = Throw\<rparr>"

definition ex_manager_no_donations :: manager where
  "ex_manager_no_donations =
     ex_manager\<lparr>allowedWebhookEvents := [''new_subscription'', ''cancelled_subscription'']\<rparr>"

definition queue_offline :: "event_result \<Rightarrow> thrown option" where
  "queue_offline r = Some (ThrownError (Error ''queue offline''))"

definition ex_manager_throwing :: manager where
  "ex_manager_throwing = ex_manager\<lparr>eventPublisher := Some queue_offline\<rparr>"

definition ex_manager_logging :: manager where
  "ex_manager_logging =
     ex_manager\<lparr>eventPublisher := Some queue_offline, eventPublisherFailureMode := Log\<rparr>"

definition empty_state :: state where
  "empty_state = \<lparr>intents = [], subscriptions = [], payments = [], donations = [], emitted = []\<rparr>"

text \<open>An intent for plan \<open>m10\<close> that expired the day before the events above.\<close>

definition intent_1 :: intent where
  "intent_1 =
     \<lparr>intent_id = ''intent-1'', intent_planId = ''m10'', intent_telegramUserId = JNum 123456,
      intent_createdAt = T0 - 900000, intent_expiresAt = T0, intent_metadata = JObj []\<rparr>"

definition state_with_intent :: state where
  "state_with_intent = empty_state\<lparr>intents := [(''intent-1'', intent_1)]\<rparr>"






text \<open>The subscription 1644 as the delivery of \<open>ev_new_subscription\<close> leaves it.\<close>

definition state_active_1644 :: state where
  "state_active_1644 =
     snd (handleWebhook ex_rt ex_manager T1 ''<new_subscription 1644>''
            (ex_sign ''<new_subscription 1644>'') state_with_intent)"

definition manual_options_backdated :: manual_cancellation_options where
  "manual_options_backdated =
     \<lparr>opt_tributeSubscriptionId = JNum 1644, opt_cancelReason = JStr ''user_request'',
      opt_cancelledAt = DateObject (Some T0), opt_payload = JUndefined\<rparr>"

text \<open>Donation 501 created at \<open>T1\<close>, and the same donation cancelled at \<open>T2\<close>.\<close>

definition state_donation_501 :: state where
  "state_donation_501 =
     snd (handleWebhook ex_rt ex_manager T1 ''<new_donation 501>'' (ex_sign ''<new_donation 501>'') empty_state)"

definition state_donation_cancelled :: state where
  "state_donation_cancelled =
     snd (handleWebhook ex_rt ex_manager T2 ''<cancelled_donation 501>''
            (ex_sign ''<cancelled_donation 501>'') state_donation_501)"

section \<open>Signature verification\<close>

lemma verify_missing_key:
  "absent secret \<Longrightarrow>
     verifyTributeSignature rt rawBody header secret enc
       = Inl (Error ''Tribute API key is required for signature verification'')"
  by (simp add: verifyTributeSignature_def)

lemma verify_buffer_missing_key:
  "absent secret \<Longrightarrow>
     verifyTributeSignature_buffer rt rawBody header secret enc
       = Inl (Error ''Tribute API key is required for signature verification'')"
  by (simp add: verifyTributeSignature_buffer_def)

lemma verify_missing_header:
  "\<not> absent secret \<Longrightarrow> absent header \<Longrightarrow>
     verifyTributeSignature rt rawBody header secret enc = Inr False"
  by (simp add: verifyTributeSignature_def)

lemma verify_buffer_missing_header:
  "\<not> absent secret \<Longrightarrow> absent header \<Longrightarrow>
     verifyTributeSignature_buffer rt rawBody header secret enc = Inr False"
  by (simp add: verifyTributeSignature_buffer_def)

lemma verify_length_mismatch:
  assumes "\<not> absent secret" and "\<not> absent header"
    and "normalizeBody rawBody = Inr body"
    and "length (buffer_from rt (computeDigest rt body (the secret) enc) enc)
           \<noteq> length (buffer_from rt (the header) enc)"
  shows "verifyTributeSignature rt rawBody header secret enc = Inr False"
  using assms by (simp add: verifyTributeSignature_def Let_def)

lemma verify_buffer_length_mismatch:
  assumes "\<not> absent secret" and "\<not> absent header"
    and "length (buffer_from rt (hmac_digest rt (the secret) body enc) enc)
           \<noteq> length (buffer_from rt (the header) enc)"
  shows "verifyTributeSignature_buffer rt (RawBuffer body) header secret enc = Inr False"
  using assms by (simp add: verifyTributeSignature_buffer_def timingSafeEqual_def Let_def)

text \<open>
  C9, as the claim states it, at a concrete call: with the secret key missing the
  verifier does not fail with a ConfigurationError. It raises a plain \<open>Error\<close>.
\<close>

theorem verify_missing_key_not_configuration_error:
  "\<not> fails_with_configuration_error
       (verifyTributeSignature ex_rt (RawBuffer ''<new_donation 501>'')
          (Some ''mac:test-secret:<new_donation 501>'') None Hex)"
  by (simp add: verifyTributeSignature_def)

text \<open>
  C9 (amended): with a secret key present, verification returns \<open>false\<close> and does
  not raise when the signature header is absent or empty, whatever the body is, and
  when the decoded digest and the decoded header differ in length; with the secret key
  missing every call fails with a generic \<open>Error\<close> (message "Tribute API key is
  required for signature verification") instead of returning an outcome. Both versions
  of the verifier behave so.
\<close>

theorem verifyTributeSignature_outcomes:
  "(\<not> absent secret \<and> absent header \<longrightarrow>
      verifyTributeSignature rt rawBody header secret enc = Inr False
      \<and> verifyTributeSignature_buffer rt rawBody header secret enc = Inr False)
   \<and> (\<not> absent secret \<and> \<not> absent header \<and> normalizeBody rawBody = Inr body
       \<and> length (buffer_from rt (computeDigest rt body (the secret) enc) enc)
           \<noteq> length (buffer_from rt (the header) enc) \<longrightarrow>
      verifyTributeSignature rt rawBody header secret enc = Inr False
      \<and> verifyTributeSignature_buffer rt (RawBuffer body) header secret enc = Inr False)
   \<and> (absent secret \<longrightarrow>
      verifyTributeSignature rt rawBody header secret enc
        = Inl (Error ''Tribute API key is required for signature verification'')
      \<and> verifyTributeSignature_buffer rt rawBody header secret enc
        = Inl (Error ''Tribute API key is required for signature verification''))"
  by (simp add: verify_missing_key verify_buffer_missing_key verify_missing_header
      verify_buffer_missing_header verify_length_mismatch verify_buffer_length_mismatch
      computeDigest_def)

theorem verifyTributeSignature_outcomes_witness:
  "verifyTributeSignature ex_rt RawOther (Some []) (Some ''test-secret'') Hex = Inr False
   \<and> verifyTributeSignature ex_rt (RawString ''<new_donation 501>'') (Some ''wrong-signature'')
        (Some ''test-secret'') Base64 = Inr False
   \<and> verifyTributeSignature ex_rt (RawBuffer ''<new_donation 501>'')
        (Some ''mac:test-secret:<new_donation 501>'') (Some []) Hex
        = Inl (Error ''Tribute API key is required for signature verification'')"
proof -
  have key: "\<not> absent (Some ''test-secret'')" and no_key: "absent (Some [])"
    and no_header: "absent (Some [])" and header: "\<not> absent (Some ''wrong-signature'')"
    by simp_all
  have body: "normalizeBody (RawString ''<new_donation 501>'') = Inr ''<new_donation 501>''"
    by simp
  have lengths:
    "length (buffer_from ex_rt (computeDigest ex_rt ''<new_donation 501>'' (the (Some ''test-secret'')) Base64) Base64)
       \<noteq> length (buffer_from ex_rt (the (Some ''wrong-signature'')) Base64)"
    by (simp add: ex_rt_def computeDigest_def)
  from verifyTributeSignature_outcomes [of "Some ''test-secret''" "Some []" ex_rt RawOther Hex]
    key no_header
  have first: "verifyTributeSignature ex_rt RawOther (Some []) (Some ''test-secret'') Hex = Inr False"
    by blast
  from verifyTributeSignature_outcomes
         [of "Some ''test-secret''" "Some ''wrong-signature''" ex_rt
             "RawString ''<new_donation 501>''" Base64 "''<new_donation 501>''"]
    key header body lengths
  have second:
    "verifyTributeSignature ex_rt (RawString ''<new_donation 501>'') (Some ''wrong-signature'')
       (Some ''test-secret'') Base64 = Inr False"
    by blast
  from verifyTributeSignature_outcomes
         [of "Some []" "Some ''mac:test-secret:<new_donation 501>''" ex_rt
             "RawBuffer ''<new_donation 501>''" Hex]
    no_key
  have third:
    "verifyTributeSignature ex_rt (RawBuffer ''<new_donation 501>'')
       (Some ''mac:test-secret:<new_donation 501>'') (Some []) Hex
       = Inl (Error ''Tribute API key is required for signature verification'')"
    by blast
  from first second third show ?thesis by blast
qed

section \<open>Plan resolution\<close>

lemma plan_matches_amended: "plan_matches pl payload = amended_plan_matches pl payload"
  by (auto simp add: plan_matches_def amended_plan_matches_def spec_field_matches_def
      period_compatible_def)

lemma handleNewSubscription_plan_not_found:
  "findPlanForPayload (plans m) (coalesce (getp event ''payload'') (JObj [])) = None \<Longrightarrow>
     handleNewSubscription rt m now event s
       = (Inl (plan_not_found (coalesce (getp event ''payload'') (JObj []))), s)"
  by (simp add: handleNewSubscription_def)

lemma handleCancelledSubscription_plan_not_found:
  "findPlanForPayload (plans m) (coalesce (getp event ''payload'') (JObj [])) = None \<Longrightarrow>
     handleCancelledSubscription rt m event s
       = (Inl (plan_not_found (coalesce (getp event ''payload'') (JObj []))), s)"
  by (simp add: handleCancelledSubscription_def)

text \<open>
  C7, as the claim states it, at a concrete payload: the plan \<open>m10\<close> sets the period
  \<open>monthly\<close>, the payload carries no period, so no plan has every matching field
  unset or equal to the payload's; yet the code resolves \<open>m10\<close>.
\<close>

theorem plan_resolution_ignores_missing_period:
  "findPlanForPayload [plan_m10, plan_open] payload_1644_no_period = Some plan_m10
   \<and> spec_findPlanForPayload [plan_m10, plan_open] payload_1644_no_period = None"
  by code_simp

text \<open>
  C7 (amended): the resolved plan is the first configured plan whose matching fields
  are each unset on the plan or equal to the payload's field: provider subscription
  id, provider period id and price by strict equality, the currency without regard to
  case, the amount against the payload's amount or its price. The period is compared
  only when the plan and the payload both carry a non-empty period, and then by its
  string form. When no plan matches, the two subscription handlers fail with
  PlanNotFoundError carrying the payload's subscription id, else its period id, else
  its price, as a string, and leave the state as it was.
\<close>

theorem findPlanForPayload_first_amended_match:
  "(findPlanForPayload ps payload = Some pl \<longleftrightarrow>
      (\<exists>i < length ps. ps ! i = pl \<and> amended_plan_matches pl payload
         \<and> (\<forall>j < i. \<not> amended_plan_matches (ps ! j) payload)))
   \<and> (findPlanForPayload ps payload = None \<longleftrightarrow> (\<forall>p \<in> set ps. \<not> amended_plan_matches p payload))
   \<and> (findPlanForPayload (plans m) (coalesce (getp event ''payload'') (JObj [])) = None \<longrightarrow>
        handleNewSubscription rt m now event s
          = (Inl (TributePlanNotFoundError
                    (to_string (coalesce (coalesce (getp (coalesce (getp event ''payload'') (JObj [])) ''subscription_id'')
                                                   (getp (coalesce (getp event ''payload'') (JObj [])) ''period_id''))
                                         (getp (coalesce (getp event ''payload'') (JObj [])) ''price'')))), s)
        \<and> handleCancelledSubscription rt m event s = handleNewSubscription rt m now event s)"
proof (intro conjI)
  show "findPlanForPayload ps payload = Some pl \<longleftrightarrow>
      (\<exists>i < length ps. ps ! i = pl \<and> amended_plan_matches pl payload
         \<and> (\<forall>j < i. \<not> amended_plan_matches (ps ! j) payload))"
    unfolding findPlanForPayload_def find_Some_iff plan_matches_amended by auto
  show "findPlanForPayload ps payload = None \<longleftrightarrow> (\<forall>p \<in> set ps. \<not> amended_plan_matches p payload)"
    unfolding findPlanForPayload_def find_None_iff plan_matches_amended by auto
  show "findPlanForPayload (plans m) (coalesce (getp event ''payload'') (JObj [])) = None \<longrightarrow>
        handleNewSubscription rt m now event s
          = (Inl (TributePlanNotFoundError
                    (to_string (coalesce (coalesce (getp (coalesce (getp event ''payload'') (JObj [])) ''subscription_id'')
                                                   (getp (coalesce (getp event ''payload'') (JObj [])) ''period_id''))
                                         (getp (coalesce (getp event ''payload'') (JObj [])) ''price'')))), s)
        \<and> handleCancelledSubscription rt m event s = handleNewSubscription rt m now event s"
    by (simp add: handleNewSubscription_plan_not_found handleCancelledSubscription_plan_not_found
        plan_not_found_def)
qed

theorem findPlanForPayload_first_amended_match_witness:
  "findPlanForPayload [plan_m10, plan_open] payload_no_id = Some plan_open
   \<and> handleNewSubscription ex_rt ex_manager T1 ev_unknown_plan empty_state
       = (Inl (TributePlanNotFoundError ''9999''), empty_state)"
proof -
  have m10: "\<not> amended_plan_matches plan_m10 payload_no_id"
    by code_simp
  have open_plan: "amended_plan_matches plan_open payload_no_id"
    by code_simp
  have "\<exists>i < length [plan_m10, plan_open]. [plan_m10, plan_open] ! i = plan_open
          \<and> amended_plan_matches plan_open payload_no_id
          \<and> (\<forall>j < i. \<not> amended_plan_matches ([plan_m10, plan_open] ! j) payload_no_id)"
    using m10 open_plan by (intro exI [of _ 1]) (simp add: less_Suc_eq)
  with findPlanForPayload_first_amended_match [of "[plan_m10, plan_open]" payload_no_id plan_open]
  have resolved: "findPlanForPayload [plan_m10, plan_open] payload_no_id = Some plan_open"
    by blast
  have none: "\<forall>p \<in> set (plans ex_manager). \<not> amended_plan_matches p payload_unknown_plan"
    by code_simp
  have payload: "coalesce (getp ev_unknown_plan ''payload'') (JObj []) = payload_unknown_plan"
    by (simp add: ev_unknown_plan_def coalesce_def payload_unknown_plan_def)
  from findPlanForPayload_first_amended_match [of "plans ex_manager" payload_unknown_plan _ ex_manager ev_unknown_plan]
    none payload
  have "handleNewSubscription ex_rt ex_manager T1 ev_unknown_plan empty_state
          = (Inl (TributePlanNotFoundError
                    (to_string (coalesce (coalesce (getp payload_unknown_plan ''subscription_id'')
                                                   (getp payload_unknown_plan ''period_id''))
                                         (getp payload_unknown_plan ''price'')))), empty_state)"
    by simp
  then have failed: "handleNewSubscription ex_rt ex_manager T1 ev_unknown_plan empty_state
          = (Inl (TributePlanNotFoundError ''9999''), empty_state)"
    by (simp add: payload_unknown_plan_def coalesce_def show_int_def)
  from resolved failed show ?thesis by blast
qed

section \<open>The store\<close>

lemma strict_eq_primitive: "is_primitive k \<Longrightarrow> strict_eq k k"
  by (cases k) simp_all

lemma strict_eq_imp_eq: "strict_eq a b \<Longrightarrow> a = b"
  by (cases a; cases b) simp_all

lemma strict_eq_imp_primitive: "strict_eq a b \<Longrightarrow> is_primitive b"
  by (cases a; cases b) simp_all

lemma map_get_None_iff: "map_get m k = None \<longleftrightarrow> \<not> map_has m k"
  by (induction m) (auto split: if_splits)

lemma map_get_Some_primitive: "map_get m k = Some v \<Longrightarrow> is_primitive k"
  by (induction m) (auto split: if_splits dest: strict_eq_imp_primitive)

lemma map_get_replace: "map_has m k \<Longrightarrow> map_get (map_replace m k v) k = Some v"
  by (induction m) (auto simp add: map_get_None_iff)

lemma map_get_append_new:
  "\<not> map_has m k \<Longrightarrow> is_primitive k \<Longrightarrow> map_get (m @ [(k, v)]) k = Some v"
  by (induction m) (auto simp add: strict_eq_primitive)

lemma map_get_map_set: "is_primitive k \<Longrightarrow> map_get (map_set m k v) k = Some v"
  by (simp add: map_set_def map_get_replace map_get_append_new)

lemma map_replace_member: "map_has m k \<Longrightarrow> v \<in> snd ` set (map_replace m k v)"
  by (induction m) auto

lemma map_set_member: "v \<in> snd ` set (map_set m k v)"
  by (simp add: map_set_def map_replace_member)

lemma map_get_member: "map_get m k = Some v \<Longrightarrow> v \<in> snd ` set m"
  by (induction m) (auto split: if_splits)

section \<open>Publishing\<close>

text \<open>What the publisher step makes of the outcome of a handler run without publisher.\<close>

lemma publishEvent_without_publisher [simp]: "publishEvent (without_publisher m) r = None"
  by (simp add: publishEvent_def without_publisher_def)

lemma plans_without_publisher [simp]: "plans (without_publisher m) = plans m"
  by (simp add: without_publisher_def)

lemma allowed_has_without_publisher [simp]: "allowed_has (without_publisher m) n = allowed_has m n"
  by (simp add: allowed_has_def without_publisher_def split: jsval.splits)

lemma apiKey_without_publisher [simp]: "apiKey (without_publisher m) = apiKey m"
  by (simp add: without_publisher_def)

lemma signatureEncoding_without_publisher [simp]:
  "signatureEncoding (without_publisher m) = signatureEncoding m"
  by (simp add: without_publisher_def)

lemma after_publish_simps [simp]:
  "after_publish m (Inl e, s) = (Inl e, s)"
  "after_publish m (Inr None, s) = (Inr None, s)"
  "after_publish m (Inr (Some r), s) =
     (case publishEvent m r of Some e \<Rightarrow> (Inl e, s) | None \<Rightarrow> (Inr (Some r), s))"
  by (simp_all add: after_publish_def)

lemma emit_and_publish_without:
  "emit_and_publish (without_publisher m) r s
     = (Inr (Some r), s\<lparr>emitted := emitted s @ notifications r\<rparr>)"
  by (simp add: emit_and_publish_def emit_def notifications_def Let_def)

lemma emit_and_publish_eq:
  "emit_and_publish m r s =
     (case publishEvent m r of
        Some e \<Rightarrow> (Inl e, s\<lparr>emitted := emitted s @ notifications r\<rparr>)
      | None \<Rightarrow> (Inr (Some r), s\<lparr>emitted := emitted s @ notifications r\<rparr>))"
  by (simp add: emit_and_publish_def emit_def notifications_def Let_def split: option.splits)

lemma emit_and_publish_rel:
  "emit_and_publish m r s = after_publish m (emit_and_publish (without_publisher m) r s)"
  by (simp add: emit_and_publish_without) (simp add: emit_and_publish_eq)

lemma store_subscription_rel:
  "store_subscription m ev p ex i ist ca rec s
     = after_publish m (store_subscription (without_publisher m) ev p ex i ist ca rec s)"
  unfolding store_subscription_def
  by (subst emit_and_publish_rel) (simp split: prod.splits)

lemma store_donation_rel:
  "store_donation m t ev p ca rec s = after_publish m (store_donation (without_publisher m) t ev p ca rec s)"
  unfolding store_donation_def
  by (subst emit_and_publish_rel) (simp split: prod.splits)

lemma handleNewSubscription_rel:
  "handleNewSubscription rt m now event s
     = after_publish m (handleNewSubscription rt (without_publisher m) now event s)"
  unfolding handleNewSubscription_def Let_def
  by (simp add: store_subscription_rel [of m] split: option.splits sum.splits prod.splits)

lemma handleCancelledSubscription_rel:
  "handleCancelledSubscription rt m event s
     = after_publish m (handleCancelledSubscription rt (without_publisher m) event s)"
  unfolding handleCancelledSubscription_def Let_def
  by (simp add: emit_and_publish_rel [of m] emit_and_publish_without
      split: option.splits sum.splits prod.splits)

lemma handleNewDonation_rel:
  "handleNewDonation rt m event s = after_publish m (handleNewDonation rt (without_publisher m) event s)"
  unfolding handleNewDonation_def Let_def
  by (simp add: store_donation_rel [of m] split: option.splits sum.splits prod.splits)

lemma handleRecurrentDonation_rel:
  "handleRecurrentDonation rt m event s
     = after_publish m (handleRecurrentDonation rt (without_publisher m) event s)"
  unfolding handleRecurrentDonation_def Let_def
  by (simp add: store_donation_rel [of m] split: option.splits sum.splits prod.splits)

lemma handleCancelledDonation_rel:
  "handleCancelledDonation rt m event s
     = after_publish m (handleCancelledDonation rt (without_publisher m) event s)"
  unfolding handleCancelledDonation_def Let_def
  by (simp add: emit_and_publish_rel [of m] emit_and_publish_without
      split: option.splits sum.splits prod.splits)

lemma dispatch_rel:
  "dispatch rt m now event s = after_publish m (dispatch rt (without_publisher m) now event s)"
  unfolding dispatch_def
  by (simp add: handleNewSubscription_rel [of rt m] handleCancelledSubscription_rel [of rt m]
      handleNewDonation_rel [of rt m] handleRecurrentDonation_rel [of rt m]
      handleCancelledDonation_rel [of rt m])

lemma handleWebhook_rel:
  "handleWebhook rt m now rawBody header s
     = after_publish m (handleWebhook rt (without_publisher m) now rawBody header s)"
  unfolding handleWebhook_def
  by (simp add: dispatch_rel [of rt m] split: sum.splits option.splits)


lemma after_publish_state: "snd (after_publish m out) = snd out"
  by (cases out) (auto simp add: after_publish_def split: sum.splits option.splits)

section \<open>The stages of the handlers\<close>

lemma consumeIntent_frame:
  "consumeIntent s k = (found, s1) \<Longrightarrow>
     subscriptions s1 = subscriptions s \<and> payments s1 = payments s
     \<and> donations s1 = donations s \<and> emitted s1 = emitted s"
  by (auto simp add: consumeIntent_def)

lemma consumeIntentByTelegramAndPlan_frame:
  "consumeIntentByTelegramAndPlan now s tg planId = (found, s1) \<Longrightarrow>
     subscriptions s1 = subscriptions s \<and> payments s1 = payments s
     \<and> donations s1 = donations s \<and> emitted s1 = emitted s"
  by (auto simp add: consumeIntentByTelegramAndPlan_def split: prod.splits)

lemma resolve_intent_frame:
  assumes "resolve_intent now s pl payload ts = (out, s1)"
  shows "subscriptions s1 = subscriptions s \<and> payments s1 = payments s
         \<and> donations s1 = donations s \<and> emitted s1 = emitted s"
proof -
  let ?intentId = "coalesce (getp payload ''intent_id'') (getp (getp payload ''metadata'') ''intent_id'')"
  obtain f1 sa where a: "(if truthy ?intentId then consumeIntent s (to_string ?intentId) else (None, s)) = (f1, sa)"
    by (cases "if truthy ?intentId then consumeIntent s (to_string ?intentId) else (None, s)")
  obtain f2 sb where b:
    "(if f1 = None \<and> getp payload ''telegram_user_id'' \<noteq> JUndefined
      then manager_consumeIntentByTelegramAndPlan now sa (getp payload ''telegram_user_id'') (plan_id pl)
      else (f1, sa)) = (f2, sb)"
    by (cases "if f1 = None \<and> getp payload ''telegram_user_id'' \<noteq> JUndefined
      then manager_consumeIntentByTelegramAndPlan now sa (getp payload ''telegram_user_id'') (plan_id pl)
      else (f1, sa)")
  from a have fa: "subscriptions sa = subscriptions s \<and> payments sa = payments s
         \<and> donations sa = donations s \<and> emitted sa = emitted s"
    by (auto split: if_splits dest: consumeIntent_frame)
  from b have fb: "subscriptions sb = subscriptions sa \<and> payments sb = payments sa
         \<and> donations sb = donations sa \<and> emitted sb = emitted sa"
    by (auto simp add: manager_consumeIntentByTelegramAndPlan_def split: if_splits
        dest: consumeIntentByTelegramAndPlan_frame)
  from assms a b have "s1 = sb"
    by (auto simp add: resolve_intent_def Let_def split: option.splits)
  with fa fb show ?thesis by simp
qed

lemma intent_for_frame:
  "intent_for now s pl payload ts ex = (out, s1) \<Longrightarrow>
     subscriptions s1 = subscriptions s \<and> payments s1 = payments s
     \<and> donations s1 = donations s \<and> emitted s1 = emitted s"
  by (auto simp add: intent_for_def split: if_splits prod.splits sum.splits
      dest: resolve_intent_frame)

lemma store_subscription_without:
  "store_subscription (without_publisher m) ev p ex i ist ca rec s1 =
     (Inr (Some (SubscriptionEvent
                   (if map_get (subscriptions s1) (sub_tributeSubscriptionId rec) \<noteq> None
                    then ''renewed'' else ''created'')
                   rec
                   (subscriptionContext ev i ist (map_get (subscriptions s1) (sub_tributeSubscriptionId rec))))),
      s1\<lparr>subscriptions := map_set (subscriptions s1) (sub_tributeSubscriptionId rec) rec,
         payments := payments s1 @ [subscriptionPayment p ex rec ca],
         emitted := emitted s1 @
           notifications
             (SubscriptionEvent
                (if map_get (subscriptions s1) (sub_tributeSubscriptionId rec) \<noteq> None
                 then ''renewed'' else ''created'')
                rec
                (subscriptionContext ev i ist (map_get (subscriptions s1) (sub_tributeSubscriptionId rec))))\<rparr>)"
  by (simp add: store_subscription_def upsertSubscription_def recordPayment_def
      emit_and_publish_without)

lemma store_donation_without:
  "store_donation (without_publisher m) t ev p ca rec s =
     (Inr (Some (DonationEvent t rec (eventContext ev None None))),
      s\<lparr>donations := map_set (donations s) (don_donationRequestId rec) rec,
        payments := payments s @ [donationPayment p rec ca],
        emitted := emitted s @ notifications (DonationEvent t rec (eventContext ev None None))\<rparr>)"
  by (simp add: store_donation_def upsertDonation_def recordPayment_def emit_and_publish_without)

lemma markSubscriptionCancelled_frame:
  "markSubscriptionCancelled rt s k c = (found, s1) \<Longrightarrow>
     payments s1 = payments s \<and> emitted s1 = emitted s \<and> donations s1 = donations s
     \<and> intents s1 = intents s"
  by (auto simp add: markSubscriptionCancelled_def Let_def split: option.splits)

lemma markDonationCancelled_frame:
  "markDonationCancelled rt s k c = (found, s1) \<Longrightarrow>
     payments s1 = payments s \<and> emitted s1 = emitted s \<and> subscriptions s1 = subscriptions s
     \<and> intents s1 = intents s"
  by (auto simp add: markDonationCancelled_def Let_def split: option.splits)

lemma raise_subscription_lastEventAt_stored:
  "raise_subscription_lastEventAt k updated ts s1 = (u, s2) \<Longrightarrow>
     u \<in> snd ` set (subscriptions s2) \<and> payments s2 = payments s1 \<and> emitted s2 = emitted s1"
  by (auto simp add: raise_subscription_lastEventAt_def Let_def map_set_member)

lemma raise_donation_lastEventAt_stored:
  "raise_donation_lastEventAt k updated ts s1 = (u, s2) \<Longrightarrow>
     u \<in> snd ` set (donations s2) \<and> payments s2 = payments s1 \<and> emitted s2 = emitted s1"
  by (auto simp add: raise_donation_lastEventAt_def Let_def map_set_member)

section \<open>What an accepted event leaves behind\<close>

lemma snd_image_member: "(a, b) \<in> set xs \<Longrightarrow> b \<in> snd ` set xs"
  by force

lemma handleNewSubscription_accepted:
  assumes "handleNewSubscription rt (without_publisher m) now event s = (Inr (Some r), s')"
  shows "emitted s' = emitted s @ notifications r \<and> entity_stored r s' \<and> ledger_appended r s s'"
  using assms unfolding handleNewSubscription_def Let_def
  by (auto simp add: store_subscription_without ledger_appended_def map_set_member
      split: option.splits sum.splits prod.splits if_splits dest!: intent_for_frame)

lemma handleNewDonation_accepted:
  assumes "handleNewDonation rt (without_publisher m) event s = (Inr (Some r), s')"
  shows "emitted s' = emitted s @ notifications r \<and> entity_stored r s' \<and> ledger_appended r s s'"
  using assms unfolding handleNewDonation_def Let_def
  by (auto simp add: store_donation_without ledger_appended_def map_set_member
      split: option.splits sum.splits prod.splits if_splits)

lemma handleRecurrentDonation_accepted:
  assumes "handleRecurrentDonation rt (without_publisher m) event s = (Inr (Some r), s')"
  shows "emitted s' = emitted s @ notifications r \<and> entity_stored r s' \<and> ledger_appended r s s'"
  using assms unfolding handleRecurrentDonation_def Let_def
  by (auto simp add: store_donation_without ledger_appended_def map_set_member
      split: option.splits sum.splits prod.splits if_splits)

lemma handleCancelledSubscription_accepted:
  assumes "handleCancelledSubscription rt (without_publisher m) event s = (Inr (Some r), s')"
  shows "emitted s' = emitted s @ notifications r \<and> entity_stored r s' \<and> ledger_appended r s s'"
  using assms unfolding handleCancelledSubscription_def Let_def
  by (auto simp add: emit_and_publish_without ledger_appended_def
      split: option.splits sum.splits prod.splits if_splits
      dest!: markSubscriptionCancelled_frame raise_subscription_lastEventAt_stored
      intro: snd_image_member)

lemma handleCancelledDonation_accepted:
  assumes "handleCancelledDonation rt (without_publisher m) event s = (Inr (Some r), s')"
  shows "emitted s' = emitted s @ notifications r \<and> entity_stored r s' \<and> ledger_appended r s s'"
  using assms unfolding handleCancelledDonation_def Let_def
  by (auto simp add: emit_and_publish_without ledger_appended_def
      split: option.splits sum.splits prod.splits if_splits
      dest!: markDonationCancelled_frame raise_donation_lastEventAt_stored
      intro: snd_image_member)

lemma dispatch_accepted:
  assumes "dispatch rt (without_publisher m) now event s = (Inr (Some r), s')"
  shows "emitted s' = emitted s @ notifications r \<and> entity_stored r s' \<and> ledger_appended r s s'"
  using assms unfolding dispatch_def
  by (auto split: if_splits
      dest: handleNewSubscription_accepted handleCancelledSubscription_accepted
        handleNewDonation_accepted handleRecurrentDonation_accepted handleCancelledDonation_accepted)

lemma handleWebhook_accepted:
  assumes "handleWebhook rt (without_publisher m) now rawBody header s = (Inr (Some r), s')"
  shows "emitted s' = emitted s @ notifications r \<and> entity_stored r s' \<and> ledger_appended r s s'"
  using assms unfolding handleWebhook_def
  by (auto split: sum.splits if_splits option.splits dest: dispatch_accepted)

section \<open>The configuration gate\<close>

lemma dispatch_dropped:
  assumes "\<not> nullish event"
    and "\<not> allowed_has m (getp event ''name'') \<or> getp event ''name'' \<notin> JStr ` set SUPPORTED_WEBHOOK_EVENTS"
  shows "dispatch rt m now event s = (Inr None, s)"
  using assms by (auto simp add: dispatch_def SUPPORTED_WEBHOOK_EVENTS_def)

text \<open>
  C5: an envelope with a valid signature whose body parses (to anything but JSON
  \<open>null\<close>, which has no name to read) and whose name is not in the configured
  allow-list, or is none of the five names the processor knows, makes
  \<open>handleWebhook\<close> return \<open>undefined\<close>: no error is raised and the state, that is
  the store and the listeners' notifications, is left as it was.
\<close>

theorem disabled_event_dropped:
  assumes "verifyTributeSignature rt (RawBuffer rawBody) header (apiKey m) (signatureEncoding m) = Inr True"
    and "json_parse rt rawBody = Some event"
    and "\<not> nullish event"
    and "\<not> allowed_has m (getp event ''name'') \<or> getp event ''name'' \<notin> JStr ` set SUPPORTED_WEBHOOK_EVENTS"
  shows "handleWebhook rt m now rawBody header s = (Inr None, s)"
  using assms by (simp add: handleWebhook_def dispatch_dropped)

theorem disabled_event_dropped_witness:
  "handleWebhook ex_rt ex_manager_no_donations T1 ''<new_donation 501>''
     (ex_sign ''<new_donation 501>'') state_with_intent
     = (Inr None, state_with_intent)"
proof -
  have valid:
    "verifyTributeSignature ex_rt (RawBuffer ''<new_donation 501>'')
       (ex_sign ''<new_donation 501>'') (apiKey ex_manager_no_donations)
       (signatureEncoding ex_manager_no_donations) = Inr True"
    by code_simp
  have parsed: "json_parse ex_rt ''<new_donation 501>'' = Some ev_new_donation"
    by (simp add: ex_rt_def ex_json_parse_def)
  have envelope: "\<not> nullish ev_new_donation"
    by (simp add: ev_new_donation_def)
  have disabled:
    "\<not> allowed_has ex_manager_no_donations (getp ev_new_donation ''name'')
     \<or> getp ev_new_donation ''name'' \<notin> JStr ` set SUPPORTED_WEBHOOK_EVENTS"
    by (simp add: allowed_has_def ex_manager_no_donations_def ex_manager_def ev_new_donation_def)
  from disabled_event_dropped [OF valid parsed envelope disabled] show ?thesis .
qed

section \<open>The publisher failure policy\<close>

lemma publishEvent_raises:
  "eventPublisher m = Some publisher \<Longrightarrow> publisher r = Some t \<Longrightarrow>
     publishEvent m r = (if eventPublisherFailureMode m = Throw then Some (rethrown t) else None)"
  by (cases t) (simp_all add: publishEvent_def)

text \<open>
  C6: take an event that is accepted, that is, one for which the webhook call of the
  manager without its publisher returns a result \<open>r\<close> and leaves the state \<open>s'\<close>,
  and a publisher that raises on \<open>r\<close>. In mode \<open>throw\<close> the webhook call raises the
  publisher's error (wrapped in an \<open>Error\<close> when the thrown value is none) and in mode
  \<open>log\<close> it returns \<open>r\<close>; in both modes the state left is \<open>s'\<close>, nothing is rolled
  back: the listeners have received the three notifications of \<open>r\<close>, the store holds
  the entity of \<open>r\<close>, and the ledger has its new entry when the event bears a payment.
\<close>

theorem publisher_failure_policy:
  assumes "handleWebhook rt (without_publisher m) now rawBody header s = (Inr (Some r), s')"
    and "eventPublisher m = Some publisher"
    and "publisher r = Some t"
  shows "(eventPublisherFailureMode m = Throw \<longrightarrow>
            handleWebhook rt m now rawBody header s = (Inl (rethrown t), s'))
       \<and> (eventPublisherFailureMode m = Log \<longrightarrow>
            handleWebhook rt m now rawBody header s = (Inr (Some r), s'))
       \<and> emitted s' = emitted s @ notifications r
       \<and> entity_stored r s'
       \<and> ledger_appended r s s'"
proof -
  have "handleWebhook rt m now rawBody header s
          = (case publishEvent m r of Some e \<Rightarrow> (Inl e, s') | None \<Rightarrow> (Inr (Some r), s'))"
    by (subst handleWebhook_rel) (simp add: assms(1))
  moreover have "publishEvent m r = (if eventPublisherFailureMode m = Throw then Some (rethrown t) else None)"
    using assms(2,3) by (rule publishEvent_raises)
  ultimately have "(eventPublisherFailureMode m = Throw \<longrightarrow>
            handleWebhook rt m now rawBody header s = (Inl (rethrown t), s'))
       \<and> (eventPublisherFailureMode m = Log \<longrightarrow>
            handleWebhook rt m now rawBody header s = (Inr (Some r), s'))"
    by simp
  with handleWebhook_accepted [OF assms(1)] show ?thesis by blast
qed

theorem publisher_failure_policy_witness:
  "fst (handleWebhook ex_rt ex_manager_throwing T1 ''<new_subscription 1644>''
          (ex_sign ''<new_subscription 1644>'') state_with_intent)
     = Inl (Error ''queue offline'')
   \<and> snd (handleWebhook ex_rt ex_manager_throwing T1 ''<new_subscription 1644>''
          (ex_sign ''<new_subscription 1644>'') state_with_intent)
     = state_active_1644
   \<and> result_type (fst (handleWebhook ex_rt ex_manager_logging T1 ''<new_subscription 1644>''
          (ex_sign ''<new_subscription 1644>'') state_with_intent))
     = Some ''created''
   \<and> snd (handleWebhook ex_rt ex_manager_logging T1 ''<new_subscription 1644>''
          (ex_sign ''<new_subscription 1644>'') state_with_intent)
     = state_active_1644
   \<and> map pay_paidAt (payments state_active_1644) = [T1]
   \<and> map fst (emitted state_active_1644) = [''subscription.created'', ''subscription.any'', ''event'']"
proof -
  let ?run = "\<lambda>m. handleWebhook ex_rt m T1 ''<new_subscription 1644>''
          (ex_sign ''<new_subscription 1644>'') state_with_intent"
  let ?quiet = "ex_manager\<lparr>eventPublisherFailureMode := Log\<rparr>"
  have same: "without_publisher ex_manager_throwing = ex_manager"
    by (simp add: without_publisher_def ex_manager_throwing_def ex_manager_def)
  have same_log: "without_publisher ex_manager_logging = ?quiet"
    by (simp add: without_publisher_def ex_manager_logging_def ex_manager_def)
  have created: "result_type (fst (?run ex_manager)) = Some ''created''"
    by code_simp
  have state: "snd (?run ex_manager) = state_active_1644"
    by code_simp
  have created_log: "result_type (fst (?run ?quiet)) = Some ''created''"
    by code_simp
  have state_log: "snd (?run ?quiet) = state_active_1644"
    by code_simp
  from created obtain r where "fst (?run ex_manager) = Inr (Some r)"
    by (cases "fst (?run ex_manager)" rule: result_type.cases) auto
  with state have accepted: "?run ex_manager = (Inr (Some r), state_active_1644)"
    by (simp add: prod_eq_iff)
  from created_log obtain r' where "fst (?run ?quiet) = Inr (Some r')" and type: "res_type r' = ''created''"
    by (cases "fst (?run ?quiet)" rule: result_type.cases) auto
  with state_log have accepted_log: "?run ?quiet = (Inr (Some r'), state_active_1644)"
    by (simp add: prod_eq_iff)
  have raises: "queue_offline r = Some (ThrownError (Error ''queue offline''))"
    "queue_offline r' = Some (ThrownError (Error ''queue offline''))"
    by (simp_all add: queue_offline_def)
  have throwing: "eventPublisher ex_manager_throwing = Some queue_offline"
    "eventPublisherFailureMode ex_manager_throwing = Throw"
    by (simp_all add: ex_manager_throwing_def ex_manager_def)
  have logging: "eventPublisher ex_manager_logging = Some queue_offline"
    "eventPublisherFailureMode ex_manager_logging = Log"
    by (simp_all add: ex_manager_logging_def ex_manager_def)
  from publisher_failure_policy [of ex_rt ex_manager_throwing, unfolded same, OF accepted throwing(1) raises(1)]
    throwing(2)
  have a: "?run ex_manager_throwing = (Inl (Error ''queue offline''), state_active_1644)"
    by simp
  from publisher_failure_policy [of ex_rt ex_manager_logging, unfolded same_log, OF accepted_log logging(1) raises(2)]
    logging(2)
  have b: "?run ex_manager_logging = (Inr (Some r'), state_active_1644)"
    by simp
  have e: "map pay_paidAt (payments state_active_1644) = [T1]"
    by code_simp
  have f: "map fst (emitted state_active_1644) = [''subscription.created'', ''subscription.any'', ''event'']"
    by code_simp
  from a b type e f show ?thesis by simp
qed

section \<open>Recurrences of a cancelled donation\<close>

lemma handleRecurrentDonation_state:
  "snd (handleRecurrentDonation rt m event s) = snd (handleRecurrentDonation rt (without_publisher m) event s)"
  by (subst handleRecurrentDonation_rel) (simp add: after_publish_state)

lemma handleRecurrentDonation_passes:
  assumes "\<not> nullish (getp (coalesce (getp event ''payload'') (JObj [])) ''donation_request_id'')"
    and "\<not> nullish (getp (coalesce (getp event ''payload'') (JObj [])) ''telegram_user_id'')"
    and "getDonationByRequestId s (getp (coalesce (getp event ''payload'') (JObj [])) ''donation_request_id'')
           = Some existing"
    and "getEventTimestamp rt event = Inr ts"
    and "\<not> isOutdatedEvent (Some (don_lastEventAt existing)) ts"
  shows "handleRecurrentDonation rt m event s =
           store_donation m ''recurrent'' event (coalesce (getp event ''payload'') (JObj []))
             (don_createdAt existing)
             (recurrentDonationRecord (coalesce (getp event ''payload'') (JObj [])) (Some existing)
                (don_createdAt existing) ts) s"
  using assms by (simp add: handleRecurrentDonation_def donation_createdAt_def Let_def)

text \<open>
  C8: a \<open>recurrent_donation\<close> event that carries the Telegram user id and whose
  ordering timestamp passes the duplicate/out-of-order check against the stored
  donation, when that donation has status \<open>cancelled\<close>, is not discarded, and the
  donation the store holds afterwards under the same id has status \<open>cancelled\<close> and
  the stored \<open>cancelledAt\<close>; only its \<open>lastEventAt\<close> moves to the event's timestamp.
\<close>

theorem cancelled_donation_stays_cancelled:
  assumes "getp (coalesce (getp event ''payload'') (JObj [])) ''donation_request_id'' = donationRequestId"
    and "\<not> nullish donationRequestId"
    and "\<not> nullish (getp (coalesce (getp event ''payload'') (JObj [])) ''telegram_user_id'')"
    and "getDonationByRequestId s donationRequestId = Some existing"
    and "don_status existing = ''cancelled''"
    and "getEventTimestamp rt event = Inr ts"
    and "\<not> isOutdatedEvent (Some (don_lastEventAt existing)) ts"
  shows "fst (handleRecurrentDonation rt m event s) \<noteq> Inr None
       \<and> map_option don_status
            (getDonationByRequestId (snd (handleRecurrentDonation rt m event s)) donationRequestId)
          = Some ''cancelled''
       \<and> map_option don_cancelledAt
            (getDonationByRequestId (snd (handleRecurrentDonation rt m event s)) donationRequestId)
          = Some (don_cancelledAt existing)
       \<and> map_option don_lastEventAt
            (getDonationByRequestId (snd (handleRecurrentDonation rt m event s)) donationRequestId)
          = Some ts"
proof -
  let ?payload = "coalesce (getp event ''payload'') (JObj [])"
  let ?rec = "recurrentDonationRecord ?payload (Some existing) (don_createdAt existing) ts"
  have primitive: "is_primitive donationRequestId"
    using assms(4) by (auto simp add: getDonationByRequestId_def dest: map_get_Some_primitive)
  have run: "handleRecurrentDonation rt m event s
               = store_donation m ''recurrent'' event ?payload (don_createdAt existing) ?rec s" for m
    using assms by (intro handleRecurrentDonation_passes) simp_all
  have id: "don_donationRequestId ?rec = donationRequestId"
    using assms(1) by (simp add: recurrentDonationRecord_def)
  have "snd (handleRecurrentDonation rt m event s)
          = snd (store_donation (without_publisher m) ''recurrent'' event ?payload (don_createdAt existing) ?rec s)"
    by (simp only: run) (subst store_donation_rel, simp only: after_publish_state)
  then have "getDonationByRequestId (snd (handleRecurrentDonation rt m event s)) donationRequestId = Some ?rec"
    using primitive
    by (simp add: store_donation_without id getDonationByRequestId_def map_get_map_set)
  moreover have "don_status ?rec = ''cancelled''" "don_cancelledAt ?rec = don_cancelledAt existing"
    "don_lastEventAt ?rec = ts"
    using assms(5) by (simp_all add: recurrentDonationRecord_def)
  moreover have "fst (handleRecurrentDonation rt m event s) \<noteq> Inr None"
    by (simp add: run store_donation_def emit_and_publish_eq split: prod.splits option.splits)
  ultimately show ?thesis by simp
qed

theorem cancelled_donation_stays_cancelled_witness:
  "map_option don_status (getDonationByRequestId state_donation_cancelled (JNum 501)) = Some ''cancelled''
   \<and> map_option don_status
        (getDonationByRequestId
           (snd (handleRecurrentDonation ex_rt ex_manager ev_recurrent_donation state_donation_cancelled))
           (JNum 501))
      = Some ''cancelled''
   \<and> map_option don_cancelledAt
        (getDonationByRequestId
           (snd (handleRecurrentDonation ex_rt ex_manager ev_recurrent_donation state_donation_cancelled))
           (JNum 501))
      = Some (Some T2)
   \<and> map_option don_lastEventAt
        (getDonationByRequestId
           (snd (handleRecurrentDonation ex_rt ex_manager ev_recurrent_donation state_donation_cancelled))
           (JNum 501))
      = Some T3"
proof -
  define existing where "existing = the (getDonationByRequestId state_donation_cancelled (JNum 501))"
  have stored: "getDonationByRequestId state_donation_cancelled (JNum 501) = Some existing"
    and status: "don_status existing = ''cancelled''"
    and cancelledAt: "don_cancelledAt existing = Some T2"
    and lastEventAt: "don_lastEventAt existing = T2"
    unfolding existing_def by code_simp+
  have id: "getp (coalesce (getp ev_recurrent_donation ''payload'') (JObj [])) ''donation_request_id'' = JNum 501"
    and tg: "\<not> nullish (getp (coalesce (getp ev_recurrent_donation ''payload'') (JObj [])) ''telegram_user_id'')"
    by (simp_all add: ev_recurrent_donation_def payload_donation_501_def coalesce_def)
  have ts: "getEventTimestamp ex_rt ev_recurrent_donation = Inr T3"
    by (simp add: getEventTimestamp_def parseDate_def ev_recurrent_donation_def ex_rt_def ex_date_parse_def)
  have newer: "\<not> isOutdatedEvent (Some (don_lastEventAt existing)) T3"
    by (simp add: lastEventAt T2_def T3_def)
  from cancelled_donation_stays_cancelled [OF id _ tg stored status ts newer, of ex_manager]
    stored status cancelledAt
  show ?thesis by simp
qed

section \<open>First-time subscription events\<close>






section \<open>Subscription events without a subscription id\<close>




section \<open>Redelivery of a subscription event\<close>

lemma handleNewSubscription_accepted_inv:
  assumes "handleNewSubscription rt (without_publisher m) now event s = (Inr (Some r), s')"
  shows "\<exists>pl ts ca i ist sa ex.
           findPlanForPayload (plans m) (coalesce (getp event ''payload'') (JObj [])) = Some pl
           \<and> getEventTimestamp rt event = Inr ts
           \<and> getEventCreatedAt rt event = Inr ca
           \<and> subscriptions sa = subscriptions s
           \<and> store_subscription (without_publisher m) event (coalesce (getp event ''payload'') (JObj []))
                (if truthy (getp (coalesce (getp event ''payload'') (JObj [])) ''subscription_id'')
                 then getSubscriptionByTributeId s (getp (coalesce (getp event ''payload'') (JObj [])) ''subscription_id'')
                 else None)
                i ist ca
                (subscriptionRecord pl (coalesce (getp event ''payload'') (JObj []))
                   (if truthy (getp (coalesce (getp event ''payload'') (JObj [])) ''subscription_id'')
                    then getSubscriptionByTributeId s (getp (coalesce (getp event ''payload'') (JObj [])) ''subscription_id'')
                    else None)
                   i ca ts ex)
                sa
              = (Inr (Some r), s')"
  using assms unfolding handleNewSubscription_def Let_def
  by (auto split: option.splits sum.splits prod.splits if_splits dest!: intent_for_frame)






section \<open>The lastEventAt watermark\<close>

lemma map_of_overwritten:
  "map_of ps k \<noteq> None \<Longrightarrow>
     map_of (map (\<lambda>(k', x). if k' = k then (k', v) else (k', x)) ps) k = Some v"
  by (induction ps) (auto split: if_splits)

lemma spread_with_get: "getp (spread_with payload k v) k = v"
  by (simp add: spread_with_def map_of_overwritten map_add_def)

lemma parseDate_Inr: "parseDate rt v name = Inr ts \<Longrightarrow> truthy v \<and> new_Date rt v = Some ts"
  by (auto simp add: parseDate_def split: if_splits option.splits)

lemma webhook_cancellation_lastEventAt:
  assumes "getEventTimestamp rt event = Inr ts"
    and "getEventCreatedAt rt event = Inr ca"
  shows "cancellation_lastEventAt rt (subscription_cancellation event payload ca) = ts"
    and "cancellation_lastEventAt rt (donation_cancellation event payload ca) = ts"
  using assms
  by (auto simp add: cancellation_lastEventAt_def subscription_cancellation_def donation_cancellation_def
      spread_with_get getEventTimestamp_def getEventCreatedAt_def
      split: if_splits dest: parseDate_Inr)

text \<open>
  The provider-driven cancellation keeps the watermark: an event at or before the
  stored \<open>lastEventAt\<close> is discarded, and an accepted one stores its own, later
  timestamp.
\<close>

lemma handleCancelledSubscription_discards_outdated:
  assumes "findPlanForPayload (plans m) (coalesce (getp event ''payload'') (JObj [])) = Some pl"
    and "getEventTimestamp rt event = Inr ts"
    and "getEventCreatedAt rt event = Inr ca"
    and "truthy (getp (coalesce (getp event ''payload'') (JObj [])) ''subscription_id'')"
    and "getSubscriptionByTributeId s (getp (coalesce (getp event ''payload'') (JObj [])) ''subscription_id'')
           = Some stored"
    and "ts \<le> sub_lastEventAt stored"
  shows "handleCancelledSubscription rt m event s = (Inr None, s)"
  using assms by (simp add: handleCancelledSubscription_def Let_def)

lemma handleCancelledSubscription_raises_lastEventAt:
  assumes "findPlanForPayload (plans m) (coalesce (getp event ''payload'') (JObj [])) = Some pl"
    and "getEventTimestamp rt event = Inr ts"
    and "getEventCreatedAt rt event = Inr ca"
    and "getp (coalesce (getp event ''payload'') (JObj [])) ''subscription_id'' = sid"
    and "truthy sid"
    and "getSubscriptionByTributeId s sid = Some stored"
    and "sub_lastEventAt stored < ts"
    and "sub_cancelledAt stored = None \<or> the (sub_cancelledAt stored) < ca"
  shows "map_option sub_lastEventAt
           (getSubscriptionByTributeId (snd (handleCancelledSubscription rt m event s)) sid) = Some ts"
proof -
  define payload where "payload = coalesce (getp event ''payload'') (JObj [])"
  define c where "c = subscription_cancellation event payload ca"
  obtain found s1 where marked: "markSubscriptionCancelled rt s sid c = (found, s1)"
    by (cases "markSubscriptionCancelled rt s sid c")
  then obtain updated where found: "found = Some updated"
    and updated: "sub_lastEventAt updated = cancellation_lastEventAt rt c"
    using assms(6)
    by (auto simp add: markSubscriptionCancelled_def getSubscriptionByTributeId_def Let_def)
  have same: "sub_lastEventAt updated = ts"
    using webhook_cancellation_lastEventAt(1) [OF assms(2,3), of payload] updated by (simp add: c_def)
  have primitive: "is_primitive sid"
    using assms(6) by (auto simp add: getSubscriptionByTributeId_def dest: map_get_Some_primitive)
  have raised: "raise_subscription_lastEventAt sid updated ts s1
                  = (updated, s1\<lparr>subscriptions := map_set (subscriptions s1) sid updated\<rparr>)"
    using same by (simp add: raise_subscription_lastEventAt_def)
  have not_outdated: "\<not> isOutdatedEvent (sub_cancelledAt stored) ca"
    using assms(8) by (cases "sub_cancelledAt stored") auto
  have newer: "\<not> isOutdatedEvent (Some (sub_lastEventAt stored)) ts"
    using assms(7) by simp
  have plan: "findPlanForPayload (plans (without_publisher m)) payload = Some pl"
    using assms(1) by (simp add: payload_def)
  have sid: "getp payload ''subscription_id'' = sid"
    using assms(4) by (simp add: payload_def)
  have run: "handleCancelledSubscription rt (without_publisher m) event s
          = emit_and_publish (without_publisher m)
              (SubscriptionEvent ''cancelled'' updated (eventContext event (Some c) None))
              (s1\<lparr>subscriptions := map_set (subscriptions s1) sid updated\<rparr>)"
    unfolding handleCancelledSubscription_def Let_def payload_def [symmetric] plan sid
    using assms(2,3,5,6) not_outdated newer marked found raised
    by (simp add: c_def)
  have "snd (handleCancelledSubscription rt m event s)
          = snd (handleCancelledSubscription rt (without_publisher m) event s)"
    by (subst handleCancelledSubscription_rel) (simp only: after_publish_state)
  then have "subscriptions (snd (handleCancelledSubscription rt m event s))
               = map_set (subscriptions s1) sid updated"
    by (simp add: run emit_and_publish_without)
  then show ?thesis
    using primitive same by (simp add: getSubscriptionByTributeId_def map_get_map_set)
qed

text \<open>
  C2 at a concrete input: subscription 1644 is active with \<open>lastEventAt = T1\<close>; the
  manual cancellation with \<open>cancelledAt = T0\<close>, a day earlier, leaves the stored
  subscription with \<open>lastEventAt = T0\<close>. \<open>markSubscriptionCancelled\<close> overwrote
  the watermark before \<open>cancelSubscriptionLocally\<close> compared it.
\<close>

theorem manual_cancellation_lowers_lastEventAt:
  "map_option sub_lastEventAt (getSubscriptionByTributeId state_active_1644 (JNum 1644)) = Some T1
   \<and> map_option sub_lastEventAt
        (getSubscriptionByTributeId
           (snd (cancelSubscriptionLocally ex_rt ex_manager T3 manual_options_backdated state_active_1644))
           (JNum 1644))
      = Some T0
   \<and> T0 < T1"
  by code_simp

section \<open>The ledger timestamp\<close>

text \<open>The subscription handler dates the ledger entry by the event's \<open>created_at\<close>.\<close>

lemma handleNewSubscription_paidAt:
  assumes "handleNewSubscription rt (without_publisher m) now event s = (Inr (Some r), s')"
    and "getEventCreatedAt rt event = Inr ca"
  shows "payments s' \<noteq> [] \<and> pay_paidAt (last (payments s')) = ca"
proof -
  from handleNewSubscription_accepted_inv [OF assms(1)] assms(2)
  show ?thesis
    by (auto simp add: store_subscription_without subscriptionPayment_def)
qed

text \<open>
  The donation handlers date it by the \<open>createdAt\<close> of the stored donation
  whenever there is one.
\<close>

lemma handleRecurrentDonation_paidAt:
  assumes "\<not> nullish (getp (coalesce (getp event ''payload'') (JObj [])) ''donation_request_id'')"
    and "\<not> nullish (getp (coalesce (getp event ''payload'') (JObj [])) ''telegram_user_id'')"
    and "getDonationByRequestId s (getp (coalesce (getp event ''payload'') (JObj [])) ''donation_request_id'')
           = Some existing"
    and "getEventTimestamp rt event = Inr ts"
    and "\<not> isOutdatedEvent (Some (don_lastEventAt existing)) ts"
  shows "pay_paidAt (last (payments (snd (handleRecurrentDonation rt m event s)))) = don_createdAt existing"
proof -
  have "snd (handleRecurrentDonation rt m event s)
          = snd (store_donation (without_publisher m) ''recurrent'' event
                   (coalesce (getp event ''payload'') (JObj [])) (don_createdAt existing)
                   (recurrentDonationRecord (coalesce (getp event ''payload'') (JObj [])) (Some existing)
                      (don_createdAt existing) ts) s)"
    by (simp only: handleRecurrentDonation_passes [OF assms])
      (subst store_donation_rel, simp only: after_publish_state)
  then show ?thesis
    by (simp add: store_donation_without donationPayment_def)
qed

text \<open>
  C3 at a concrete input: donation 501 was created by an event of time \<open>T1\<close>; the
  accepted \<open>recurrent_donation\<close> event created and sent at \<open>T3\<close>, a month later,
  appends a ledger entry whose \<open>paidAt\<close> is \<open>T1\<close>, the stored \<open>createdAt\<close>, and
  not the event's \<open>created_at\<close>.
\<close>

theorem recurrent_donation_paidAt_is_stored_createdAt:
  "getEventCreatedAt ex_rt ev_recurrent_donation = Inr T3
   \<and> result_type (fst (handleWebhook ex_rt ex_manager T3 ''<recurrent_donation 501>''
                          (ex_sign ''<recurrent_donation 501>'') state_donation_501))
       = Some ''recurrent''
   \<and> map pay_paidAt
        (payments (snd (handleWebhook ex_rt ex_manager T3 ''<recurrent_donation 501>''
                          (ex_sign ''<recurrent_donation 501>'') state_donation_501)))
       = [T1, T1]
   \<and> T1 < T3"
  by code_simp

end
